theory Spec2Isabelle
  imports Complex_Main "HOL-Library.Sublist"
begin

section \<open>Strings as the handlers see them\<close>

text \<open>
  A Python \<open>str\<close> is modelled as a \<open>string\<close> whose characters are the code points
  below 256. \<open>str.strip()\<close> removes leading and trailing whitespace; in this range the
  characters Python counts as whitespace are 0x09-0x0D, 0x1C-0x1F, 0x20, 0x85 and 0xA0.
\<close>

definition is_space :: "char \<Rightarrow> bool" where
  "is_space c =
     (let n = (of_char c :: nat)
      in (9 \<le> n \<and> n \<le> 13) \<or> (28 \<le> n \<and> n \<le> 32) \<or> n = 133 \<or> n = 160)"

definition strip :: "string \<Rightarrow> string" where
  "strip s = rev (dropWhile is_space (rev (dropWhile is_space s)))"

definition startswith :: "string \<Rightarrow> string \<Rightarrow> bool" where
  "startswith s p = (take (length p) s = p)"

section \<open>Address validator\<close>

text \<open>The character class \<open>[A-Za-z0-9_-]\<close> of the body pattern.\<close>

definition base64url_char :: "char \<Rightarrow> bool" where
  "base64url_char c =
     (let n = (of_char c :: nat)
      in (65 \<le> n \<and> n \<le> 90) \<or> (97 \<le> n \<and> n \<le> 122) \<or> (48 \<le> n \<and> n \<le> 57)
         \<or> c = CHR ''_'' \<or> c = CHR ''-'')"

text \<open>
  \<open>re.match(r'^[A-Za-z0-9_-]+$', body)\<close>: one or more characters of the class, up to the
  end of the string; Python's \<open>$\<close> also matches just before a newline that ends the string.
\<close>

definition match_base64url :: "string \<Rightarrow> bool" where
  "match_base64url body =
     ((body \<noteq> [] \<and> list_all base64url_char body)
      \<or> (body \<noteq> [] \<and> last body = CHR 0x0A \<and> butlast body \<noteq> []
          \<and> list_all base64url_char (butlast body)))"

definition valid_prefixes :: "string list" where
  "valid_prefixes = [''EQ'', ''UQ'', ''kQ'', ''0Q'']"

definition is_valid_ton_address :: "string \<Rightarrow> bool" where
  "is_valid_ton_address address0 =
     (let address = strip address0
      in if length address < 48 \<or> length address > 50 then False
         else if \<not> list_ex (startswith address) valid_prefixes then False
         else if \<not> match_base64url (drop 2 address) then False
         else True)"

section \<open>Input sanitation\<close>

text \<open>
  \<open>re.sub(r'[<>"\'\(\){}[\]\\]', '', text.strip())[:max_length]\<close>: the characters
  \<open>< > " ' ( ) { } [ ] \\<close> are removed from the stripped text, which is then truncated.
\<close>

definition dangerous_chars :: "char list" where
  "dangerous_chars =
     [CHR ''<'', CHR ''>'', CHR 0x22, CHR 0x27, CHR ''('', CHR '')'',
      CHR ''{'', CHR ''}'', CHR ''['', CHR '']'', CHR 0x5C]"

definition sanitize_user_input :: "string \<Rightarrow> nat \<Rightarrow> string" where
  "sanitize_user_input txt max_length =
     take max_length (filter (\<lambda>c. c \<notin> set dangerous_chars) (strip txt))"

section \<open>Numbers\<close>

text \<open>
  Amounts are Python floats: IEEE 754 binary64 values. A finite float is modelled by the
  rational number it denotes; every arithmetic operation computes the exact result and
  rounds it to the nearest binary64 value, a tie going to the even significand. The sign of
  zero is not modelled.
\<close>

datatype pyfloat = Finite rat | PosInf | NegInf | NaN

definition round_half_even :: "rat \<Rightarrow> int" where
  "round_half_even x =
     (let f = \<lfloor>x\<rfloor>; d = x - of_int f
      in if d < 1 / 2 then f
         else if 1 / 2 < d then f + 1
         else if even f then f else f + 1)"

definition pow2 :: "int \<Rightarrow> rat" where
  "pow2 e = (if 0 \<le> e then 2 ^ nat e else 1 / 2 ^ nat (- e))"

text \<open>
  The exponent of the last bit of the significand: the least \<open>e\<close> from -1074 on with
  \<open>|x| < 2 ^ (e + 53)\<close>. The significand is \<open>|x| / 2 ^ e\<close> rounded to an integer; a result
  of \<open>2 ^ 1024\<close> or more overflows to an infinity.
\<close>

definition float_exponent :: "rat \<Rightarrow> int" where
  "float_exponent x =
     (case List.find (\<lambda>e. \<bar>x\<bar> < pow2 (e + 53)) [- 1074..971] of
        Some e \<Rightarrow> e
      | None \<Rightarrow> 972)"

definition binary64 :: "rat \<Rightarrow> pyfloat" where
  "binary64 x =
     (let e = float_exponent x;
          m = round_half_even (\<bar>x\<bar> / pow2 e)
      in if 971 < e \<or> 2 ^ 1024 \<le> of_int m * pow2 e
         then (if x < 0 then NegInf else PosInf)
         else Finite (sgn x * of_int m * pow2 e))"

fun fmul :: "pyfloat \<Rightarrow> pyfloat \<Rightarrow> pyfloat" where
  "fmul NaN y = NaN"
| "fmul x NaN = NaN"
| "fmul (Finite a) (Finite b) = binary64 (a * b)"
| "fmul (Finite a) PosInf = (if a = 0 then NaN else if 0 < a then PosInf else NegInf)"
| "fmul (Finite a) NegInf = (if a = 0 then NaN else if 0 < a then NegInf else PosInf)"
| "fmul PosInf (Finite b) = (if b = 0 then NaN else if 0 < b then PosInf else NegInf)"
| "fmul NegInf (Finite b) = (if b = 0 then NaN else if 0 < b then NegInf else PosInf)"
| "fmul PosInf PosInf = PosInf"
| "fmul PosInf NegInf = NegInf"
| "fmul NegInf PosInf = NegInf"
| "fmul NegInf NegInf = PosInf"

fun fadd :: "pyfloat \<Rightarrow> pyfloat \<Rightarrow> pyfloat" where
  "fadd NaN y = NaN"
| "fadd x NaN = NaN"
| "fadd (Finite a) (Finite b) = binary64 (a + b)"
| "fadd PosInf NegInf = NaN"
| "fadd NegInf PosInf = NaN"
| "fadd PosInf y = PosInf"
| "fadd NegInf y = NegInf"
| "fadd x PosInf = PosInf"
| "fadd x NegInf = NegInf"

fun fneg :: "pyfloat \<Rightarrow> pyfloat" where
  "fneg (Finite a) = Finite (- a)"
| "fneg PosInf = NegInf"
| "fneg NegInf = PosInf"
| "fneg NaN = NaN"

definition fsub :: "pyfloat \<Rightarrow> pyfloat \<Rightarrow> pyfloat" where
  "fsub x y = fadd x (fneg y)"

text \<open>\<open>x <= y\<close>: false as soon as one side is nan.\<close>

fun fle :: "pyfloat \<Rightarrow> pyfloat \<Rightarrow> bool" where
  "fle NaN y = False"
| "fle x NaN = False"
| "fle NegInf y = True"
| "fle x PosInf = True"
| "fle PosInf y = False"
| "fle x NegInf = False"
| "fle (Finite a) (Finite b) = (a \<le> b)"

text \<open>
  \<open>round(x, n)\<close> of a float: the exact value of \<open>x\<close> is rounded to \<open>n\<close> decimal places, a
  tie going to the even neighbour, and the decimal result is converted back to the nearest
  float. Infinities and nan round to themselves.
\<close>

definition py_round :: "rat \<Rightarrow> nat \<Rightarrow> rat" where
  "py_round x ndigits = of_int (round_half_even (x * 10 ^ ndigits)) / 10 ^ ndigits"

fun fround :: "pyfloat \<Rightarrow> nat \<Rightarrow> pyfloat" where
  "fround (Finite a) ndigits = binary64 (py_round a ndigits)"
| "fround PosInf ndigits = PosInf"
| "fround NegInf ndigits = NegInf"
| "fround NaN ndigits = NaN"

text \<open>\<open>str(n)\<close> of an integer, as the f-strings format it.\<close>

definition digit_char :: "nat \<Rightarrow> char" where
  "digit_char d = ''0123456789'' ! d"

fun str_nat :: "nat \<Rightarrow> string" where
  "str_nat n =
     (if n < 10 then [digit_char n]
      else str_nat (n div 10) @ [digit_char (n mod 10)])"

declare str_nat.simps [simp del]

definition str_int :: "int \<Rightarrow> string" where
  "str_int i = (if i < 0 then CHR ''-'' # str_nat (nat (- i)) else str_nat (nat i))"

section \<open>Configuration\<close>

definition FEE_PERCENTAGE :: pyfloat where
  "FEE_PERCENTAGE = binary64 (5 / 100)"

definition PAYMENT_TIMEOUT_MINUTES :: nat where
  "PAYMENT_TIMEOUT_MINUTES = 60"

definition PAYMENT_CHECK_INTERVAL :: nat where
  "PAYMENT_CHECK_INTERVAL = 30"


definition max_checks :: nat where
  "max_checks = (PAYMENT_TIMEOUT_MINUTES * 60) div PAYMENT_CHECK_INTERVAL"

section \<open>Session storage\<close>

text \<open>
  A session is the dictionary stored in \<open>user_sessions\<close>; a key that is absent from the
  dictionary is a field that is \<open>None\<close>. The step is one of four string literals.
\<close>

datatype step = waiting_seller_wallet | waiting_amount | generating_wallet | completed

record session =
  step :: "step option"
  started_at :: "int option"
  seller_wallet :: "string option"
  amount :: "pyfloat option"
  fee_amount :: "pyfloat option"
  seller_amount :: "pyfloat option"
  escrow_address :: "string option"
  escrow_private_key :: "string option"
  transaction_id :: "string option"

definition empty_dict :: session where
  "empty_dict =
     \<lparr>step = None, started_at = None, seller_wallet = None, amount = None,
      fee_amount = None, seller_amount = None, escrow_address = None,
      escrow_private_key = None, transaction_id = None\<rparr>"

text \<open>
  The entry of \<open>escrow_wallets\<close>: the wallet that \<open>generate_escrow_wallet\<close> returned
  (address, private key, creation time, signer object) extended with the escrow's data. The
  key \<open>wallet_address\<close>, the address once more as an object, is left out. The status is a
  string; the source writes only \<open>"waiting_payment"\<close>.
\<close>

record wallet_info =
  w_address :: string
  w_private_key :: string
  w_created_at :: string
  w_wallet_object :: "string option"

record escrow_record = wallet_info +
  rec_user_id :: int
  rec_seller_wallet :: string
  rec_amount :: pyfloat
  rec_fee_amount :: pyfloat
  rec_seller_amount :: pyfloat
  status :: string
  created_timestamp :: int
  rec_transaction_id :: string

text \<open>The messages the bot sends, with the values each one shows.\<close>

datatype notice =
    Welcome
  | AlreadyActiveEscrow
  | AskSellerAddress
  | MessageTooOld
  | PleaseStart
  | SessionExpired
  | UseMenuButtons
  | EmptyAddress
  | InvalidAddressFormat
  | FeeWalletAsSeller
  | SellerWalletSaved string
  | InvalidNumberFormat
  | AmountMustBePositive
  | GeneratingWallet
  | EscrowCreated pyfloat string pyfloat pyfloat string
  | WalletGenerationFailed
  | MonitoringActive pyfloat pyfloat string nat
  | EscrowTimeout string
  | ProcessingTransfers
  | WalletDataNotFound string
  | EscrowCompleted pyfloat pyfloat pyfloat string string
  | PartialSuccess pyfloat pyfloat
  | PaymentProcessingFailed pyfloat string
  | CriticalErrorDuringRelease string int

text \<open>
  The state of the process: the two module-level dictionaries, and what the process has
  done to the outside: the messages delivered to users, in order, the transfers that
  \<open>send_ton_payment\<close> reported as sent, and the monitor tasks created.
\<close>

record world =
  user_sessions :: "int \<rightharpoonup> session"
  escrow_wallets :: "string \<rightharpoonup> escrow_record"
  outbox :: "(int \<times> notice) list"
  transfers :: "(string \<times> pyfloat) list"
  monitors :: "(int \<times> string) list"

text \<open>
  \<open>bot.send_message\<close>, \<open>msg.answer\<close> and \<open>edit_text\<close> deliver a message to the user of a
  private chat. Delivery is taken to succeed: the notifier is a collaborator whose failures
  do not come back to the caller.
\<close>

definition send_message :: "int \<Rightarrow> notice \<Rightarrow> world \<Rightarrow> world" where
  "send_message uid n w = w\<lparr>outbox := outbox w @ [(uid, n)]\<rparr>"

record message =
  from_user :: int
  msg_text :: string
  msg_date :: int

text \<open>
  What a handler reads from outside the process while it runs: the clock (in seconds and
  in milliseconds), Python's \<open>float()\<close> (\<open>None\<close> is ValueError; the result may be an
  infinity or nan), and the outcome of creating a key pair and wallet with the wallet
  library (\<open>Inl\<close> is an exception).
\<close>

record keypair =
  kp_address :: string
  kp_private_key :: string

record env =
  now :: int
  now_ms :: int
  py_float :: "string \<Rightarrow> pyfloat option"
  wallet_lib :: "string + keypair"

section \<open>Wallet provisioning and the external calls\<close>

definition generate_escrow_wallet :: "env \<Rightarrow> string + wallet_info" where
  "generate_escrow_wallet e =
     (case wallet_lib e of
        Inl err \<Rightarrow> Inl err
      | Inr kp \<Rightarrow>
          if kp_address kp = [] \<or> \<not> is_valid_ton_address (kp_address kp)
          then Inl ''Failed to generate valid TON address''
          else Inr \<lparr>w_address = kp_address kp, w_private_key = kp_private_key kp,
                    w_created_at = str_int (now_ms e),
                    w_wallet_object = Some (kp_private_key kp)\<rparr>)"

text \<open>
  \<open>get_wallet_balance\<close> answers 0 for an address that fails validation, without a query;
  otherwise it answers what the primary or the fallback API gave (0 on any error), which is
  the argument \<open>api\<close>.
\<close>

definition get_wallet_balance :: "pyfloat \<Rightarrow> string \<Rightarrow> pyfloat" where
  "get_wallet_balance api addr = (if \<not> is_valid_ton_address addr then Finite 0 else api)"

text \<open>
  \<open>send_ton_payment\<close> refuses an invalid recipient, a non-positive amount and a wallet
  record without signer; \<open>int(amount_ton * 1e9)\<close> raises for an infinity or nan, which also
  gives \<open>False\<close>. Otherwise its result is that of building and broadcasting the transfer,
  the argument \<open>net\<close>.
\<close>

definition send_ton_payment ::
    "bool \<Rightarrow> escrow_record \<Rightarrow> string \<Rightarrow> pyfloat \<Rightarrow> world \<Rightarrow> bool \<times> world" where
  "send_ton_payment net from_wallet to_address amount_ton w =
     (if \<not> is_valid_ton_address to_address then (False, w)
      else if fle amount_ton (Finite 0) then (False, w)
      else case w_wallet_object from_wallet of
             None \<Rightarrow> (False, w)
           | Some wallet \<Rightarrow>
               (case amount_ton of
                  Finite a \<Rightarrow>
                    if net
                    then (True, w\<lparr>transfers := transfers w @ [(to_address, amount_ton)]\<rparr>)
                    else (False, w)
                | _ \<Rightarrow> (False, w)))"

section \<open>Command and menu handlers\<close>

definition start_handler :: "message \<Rightarrow> world \<Rightarrow> world" where
  "start_handler msg w =
     (let uid = from_user msg;
          w1 = send_message uid Welcome w
      in if uid \<in> dom (user_sessions w1)
         then w1\<lparr>user_sessions := (user_sessions w1)(uid := None)\<rparr>
         else w1)"

definition escrow_entry :: "env \<Rightarrow> int \<Rightarrow> world \<Rightarrow> world" where
  "escrow_entry e uid w =
     (if uid \<in> dom (user_sessions w)
         \<and> (case user_sessions w uid of None \<Rightarrow> False | Some s \<Rightarrow> step s = Some completed)
      then send_message uid AlreadyActiveEscrow w
      else
        send_message uid AskSellerAddress
          (w\<lparr>user_sessions := (user_sessions w)(uid \<mapsto>
               empty_dict\<lparr>step := Some waiting_seller_wallet, started_at := Some (now e)\<rparr>)\<rparr>))"


section \<open>Text input\<close>

text \<open>
  The two input handlers receive the session dictionary itself and update it in place; they
  return the updated session together with the world, and the dispatcher stores the
  session back under the user's key.
\<close>

definition handle_seller_wallet_input ::
    "string \<Rightarrow> message \<Rightarrow> session \<Rightarrow> world \<Rightarrow> session \<times> world" where
  "handle_seller_wallet_input FEE_WALLET msg sess w =
     (let raw_address = strip (msg_text msg);
          wallet_address = sanitize_user_input raw_address 50
      in if wallet_address = [] then (sess, send_message (from_user msg) EmptyAddress w)
         else if \<not> is_valid_ton_address wallet_address
         then (sess, send_message (from_user msg) InvalidAddressFormat w)
         else if wallet_address = FEE_WALLET
         then (sess, send_message (from_user msg) FeeWalletAsSeller w)
         else (sess\<lparr>seller_wallet := Some wallet_address, step := Some waiting_amount\<rparr>,
               send_message (from_user msg) (SellerWalletSaved wallet_address) w))"

text \<open>
  The transaction identifier is \<open>f"{user_id}_{int(time.time())}"\<close>. The name \<open>user_id\<close> is
  neither a parameter nor a local variable of \<open>handle_amount_input\<close> (its parameters are
  \<open>msg\<close> and \<open>session\<close>), so Python looks it up among the module's globals when the line
  runs. The handler is given what that lookup yields: \<open>None\<close> when the name is unbound,
  which raises NameError inside the \<open>try\<close> block around wallet generation. The module
  binds no such global.
\<close>

definition module_user_id :: "int option" where
  "module_user_id = None"

definition provisioning_failed :: "message \<Rightarrow> session \<Rightarrow> world \<Rightarrow> session \<times> world" where
  "provisioning_failed msg sess w =
     (sess\<lparr>step := Some waiting_amount\<rparr>,
      send_message (from_user msg) WalletGenerationFailed w)"

definition handle_amount_input ::
    "int option \<Rightarrow> env \<Rightarrow> message \<Rightarrow> session \<Rightarrow> world \<Rightarrow> session \<times> world" where
  "handle_amount_input user_id_global e msg sess w =
     (let amount_text = sanitize_user_input (strip (msg_text msg)) 20
      in case py_float e amount_text of
           None \<Rightarrow> (sess, send_message (from_user msg) InvalidNumberFormat w)
         | Some amt \<Rightarrow>
             if fle amt (Finite 0)
             then (sess, send_message (from_user msg) AmountMustBePositive w)
             else
               let fee = fround (fmul amt FEE_PERCENTAGE) 6;
                   seller = fround (fsub amt fee) 6;
                   s1 = sess\<lparr>amount := Some amt, fee_amount := Some fee,
                              seller_amount := Some seller, step := Some generating_wallet\<rparr>;
                   w1 = send_message (from_user msg) GeneratingWallet w
               in case generate_escrow_wallet e of
                    Inl err \<Rightarrow> provisioning_failed msg s1 w1
                  | Inr escrow_wallet_info \<Rightarrow>
                      (case user_id_global of
                         None \<Rightarrow> provisioning_failed msg s1 w1
                       | Some user_id \<Rightarrow>
                           let tid = str_int user_id @ ''_'' @ str_int (now e);
                               s2 = s1\<lparr>escrow_address := Some (w_address escrow_wallet_info),
                                        escrow_private_key := Some (w_private_key escrow_wallet_info),
                                        transaction_id := Some tid,
                                        step := Some completed\<rparr>
                           in case seller_wallet s2 of
                                None \<Rightarrow> provisioning_failed msg s2 w1
                              | Some seller_addr \<Rightarrow>
                                  let w2 = w1\<lparr>escrow_wallets := (escrow_wallets w1)(tid \<mapsto>
                                             \<lparr>w_address = w_address escrow_wallet_info,
                                              w_private_key = w_private_key escrow_wallet_info,
                                              w_created_at = w_created_at escrow_wallet_info,
                                              w_wallet_object = w_wallet_object escrow_wallet_info,
                                              rec_user_id = user_id,
                                              rec_seller_wallet = seller_addr,
                                              rec_amount = amt,
                                              rec_fee_amount = fee,
                                              rec_seller_amount = seller,
                                              status = ''waiting_payment'',
                                              created_timestamp = now e,
                                              rec_transaction_id = tid\<rparr>)\<rparr>;
                                      w3 = send_message (from_user msg)
                                             (EscrowCreated amt seller_addr fee seller
                                                (w_address escrow_wallet_info)) w2
                                  in (s2, w3\<lparr>monitors := monitors w3 @ [(from_user msg, tid)]\<rparr>)))"

definition store_session :: "int \<Rightarrow> session \<times> world \<Rightarrow> world" where
  "store_session uid r = (snd r)\<lparr>user_sessions := (user_sessions (snd r))(uid \<mapsto> fst r)\<rparr>"

definition handle_text_messages :: "string \<Rightarrow> env \<Rightarrow> message \<Rightarrow> world \<Rightarrow> world" where
  "handle_text_messages FEE_WALLET e msg w =
     (let uid = from_user msg
      in if now e - msg_date msg > 300 then send_message uid MessageTooOld w
         else case user_sessions w uid of
                None \<Rightarrow> send_message uid PleaseStart w
              | Some sess \<Rightarrow>
                  let session_age = now e - (case started_at sess of None \<Rightarrow> 0 | Some t \<Rightarrow> t)
                  in if session_age > 1800
                     then send_message uid SessionExpired
                            (w\<lparr>user_sessions := (user_sessions w)(uid := None)\<rparr>)
                     else if step sess = Some waiting_seller_wallet
                     then store_session uid (handle_seller_wallet_input FEE_WALLET msg sess w)
                     else if step sess = Some waiting_amount
                     then store_session uid (handle_amount_input module_user_id e msg sess w)
                     else send_message uid UseMenuButtons w)"


section \<open>Release\<close>

text \<open>
  The five session fields read at the start of the release; a missing key raises KeyError,
  which is the result \<open>None\<close>.
\<close>

definition release_fields ::
    "session \<Rightarrow> (pyfloat \<times> string \<times> string \<times> pyfloat \<times> pyfloat) option" where
  "release_fields sess =
     (case amount sess of None \<Rightarrow> None | Some amt \<Rightarrow>
      case seller_wallet sess of None \<Rightarrow> None | Some seller_address \<Rightarrow>
      case escrow_address sess of None \<Rightarrow> None | Some escrow_addr \<Rightarrow>
      case fee_amount sess of None \<Rightarrow> None | Some fee \<Rightarrow>
      case seller_amount sess of None \<Rightarrow> None | Some seller \<Rightarrow>
        Some (amt, seller_address, escrow_addr, fee, seller))"

definition cleanup :: "int \<Rightarrow> string \<Rightarrow> world \<Rightarrow> world" where
  "cleanup uid tid w =
     (let w1 = (if uid \<in> dom (user_sessions w)
                then w\<lparr>user_sessions := (user_sessions w)(uid := None)\<rparr> else w)
      in if tid \<in> dom (escrow_wallets w1)
         then w1\<lparr>escrow_wallets := (escrow_wallets w1)(tid := None)\<rparr> else w1)"

text \<open>
  \<open>seller_net\<close> and \<open>fee_net\<close> are the outcomes of broadcasting the two transfers, should
  \<open>send_ton_payment\<close> get that far.
\<close>

definition process_escrow_release ::
    "string \<Rightarrow> bool \<Rightarrow> bool \<Rightarrow> int \<Rightarrow> string \<Rightarrow> session \<Rightarrow> world \<Rightarrow> world" where
  "process_escrow_release FEE_WALLET seller_net fee_net uid tid sess w =
     (case release_fields sess of
        None \<Rightarrow>
          send_message uid
            (CriticalErrorDuringRelease
               (case escrow_address sess of None \<Rightarrow> ''Unknown'' | Some a \<Rightarrow> a) uid) w
      | Some (amt, seller_address, escrow_addr, fee, seller) \<Rightarrow>
          let w1 = send_message uid ProcessingTransfers w
          in case escrow_wallets w1 tid of
               None \<Rightarrow> send_message uid (WalletDataNotFound escrow_addr) w1
             | Some wallet \<Rightarrow>
                 let r1 = send_ton_payment seller_net wallet seller_address seller w1;
                     seller_success = fst r1;
                     r2 = send_ton_payment fee_net wallet FEE_WALLET fee (snd r1);
                     fee_success = fst r2;
                     w3 = (if seller_success \<and> fee_success
                           then send_message uid
                                  (EscrowCompleted amt seller fee seller_address escrow_addr) (snd r2)
                           else if seller_success \<and> \<not> fee_success
                           then send_message uid (PartialSuccess seller fee) (snd r2)
                           else send_message uid (PaymentProcessingFailed amt escrow_addr) (snd r2))
                 in cleanup uid tid w3)"

section \<open>Payment monitor\<close>

text \<open>
  One pass through the body of the \<open>while\<close> loop ends in \<open>break\<close>, or at the bottom of
  the body with \<open>check_count\<close> incremented, or in the \<open>except\<close> branch, which sleeps and
  leaves \<open>check_count\<close> as it is. The body performs at most one call of
  \<open>get_wallet_balance\<close>; the second component of the result says whether it did. The
  variable \<open>last_balance\<close> only feeds the log and is left out.

  A tick is what the outside supplies for one pass: the balance the API reports, the
  outcomes of the two broadcasts should the release run, and what the other handlers and
  tasks do to the state at the two places where the pass gives up control: while the task
  awaits the balance query, after it has checked the session and read the escrow address
  and the amount from it (\<open>during_query\<close>), and while it sleeps after the pass
  (\<open>interference\<close>). The session dictionary the task holds is the one it fetched before
  the query; no handler updates the dictionary of a session in step \<open>completed\<close> in place.
\<close>

record tick =
  api_balance :: pyfloat
  seller_net :: bool
  fee_net :: bool
  during_query :: "world \<Rightarrow> world"
  interference :: "world \<Rightarrow> world"

datatype signal = Break | Next | Retry

definition session_valid :: "int \<Rightarrow> string \<Rightarrow> world \<Rightarrow> bool" where
  "session_valid uid tid w =
     (case user_sessions w uid of
        None \<Rightarrow> False
      | Some sess \<Rightarrow>
          sess \<noteq> empty_dict \<and> step sess = Some completed \<and> transaction_id sess = Some tid)"

definition monitor_body ::
    "string \<Rightarrow> int \<Rightarrow> string \<Rightarrow> nat \<Rightarrow> tick \<Rightarrow> world \<Rightarrow> signal \<times> bool \<times> world" where
  "monitor_body FEE_WALLET uid tid check_count t w =
     (if \<not> session_valid uid tid w then (Break, False, w)
      else case user_sessions w uid of
             None \<Rightarrow> (Break, False, w)
           | Some sess \<Rightarrow>
               (case escrow_address sess of
                  None \<Rightarrow> (Retry, False, w)
                | Some escrow_addr \<Rightarrow>
                    (case amount sess of
                       None \<Rightarrow> (Retry, False, w)
                     | Some expected_amount \<Rightarrow>
                         let current_balance = get_wallet_balance (api_balance t) escrow_addr;
                             w1 = during_query t w
                         in if fle expected_amount current_balance
                            then (Break, True,
                                  process_escrow_release FEE_WALLET (seller_net t) (fee_net t)
                                    uid tid sess w1)
                            else if check_count \<in> set [1, 5, 10, 20, 40]
                            then (Next, True,
                                  send_message uid
                                    (MonitoringActive expected_amount current_balance
                                       escrow_addr check_count) w1)
                            else (Next, True, w1))))"

text \<open>
  The loop, from the moment its condition is tested with the given \<open>check_count\<close>. The
  second number counts the calls of \<open>get_wallet_balance\<close> the task has made so far; it is
  not a variable of the source. The list of ticks is the schedule the outside provides: a
  task whose schedule runs out in the middle of the loop is still \<open>Running\<close>.
\<close>

datatype run = Running nat nat world | Done nat nat world

fun monitor_loop ::
    "string \<Rightarrow> int \<Rightarrow> string \<Rightarrow> nat \<Rightarrow> nat \<Rightarrow> tick list \<Rightarrow> world \<Rightarrow> run" where
  "monitor_loop FEE_WALLET uid tid c p [] w =
     (if c < max_checks then Running c p w else Done c p w)"
| "monitor_loop FEE_WALLET uid tid c p (t # ts) w =
     (if c < max_checks
      then (case monitor_body FEE_WALLET uid tid c t w of
              (Break, polled, w') \<Rightarrow> Done c (p + (if polled then 1 else 0)) w'
            | (Next, polled, w') \<Rightarrow>
                monitor_loop FEE_WALLET uid tid (c + 1) (p + (if polled then 1 else 0)) ts
                  (interference t w')
            | (Retry, polled, w') \<Rightarrow>
                monitor_loop FEE_WALLET uid tid c (p + (if polled then 1 else 0)) ts
                  (interference t w'))
      else Done c p w)"

text \<open>The code after the loop: the timeout message.\<close>

definition monitor_timeout :: "int \<Rightarrow> string \<Rightarrow> nat \<Rightarrow> world \<Rightarrow> world" where
  "monitor_timeout uid tid check_count w =
     (if check_count \<ge> max_checks
      then (case user_sessions w uid of
              None \<Rightarrow> w
            | Some sess \<Rightarrow>
                if sess \<noteq> empty_dict \<and> step sess = Some completed
                   \<and> transaction_id sess = Some tid
                then send_message uid
                       (EscrowTimeout
                          (case escrow_address sess of None \<Rightarrow> ''Unknown'' | Some a \<Rightarrow> a)) w
                else w)
      else w)"

text \<open>The task from a given point of its loop to its end, and the whole task.\<close>

definition monitor_resume ::
    "string \<Rightarrow> int \<Rightarrow> string \<Rightarrow> nat \<Rightarrow> nat \<Rightarrow> tick list \<Rightarrow> world \<Rightarrow> run" where
  "monitor_resume FEE_WALLET uid tid c p ts w =
     (case monitor_loop FEE_WALLET uid tid c p ts w of
        Running c' p' w' \<Rightarrow> Running c' p' w'
      | Done c' p' w' \<Rightarrow> Done c' p' (monitor_timeout uid tid c' w'))"

definition monitor_payment :: "string \<Rightarrow> int \<Rightarrow> string \<Rightarrow> tick list \<Rightarrow> world \<Rightarrow> run" where
  "monitor_payment FEE_WALLET uid tid ts w = monitor_resume FEE_WALLET uid tid 0 0 ts w"

fun polls :: "run \<Rightarrow> nat" where
  "polls (Running c p w) = p"
| "polls (Done c p w) = p"

fun final_world :: "run \<Rightarrow> world" where
  "final_world (Running c p w) = w"
| "final_world (Done c p w) = w"


section \<open>Scenarios\<close>

text \<open>Concrete values on which the theorems below are instantiated.\<close>

definition DEFAULT_FEE_WALLET :: string where
  "DEFAULT_FEE_WALLET = ''UQAg3mG5c-QFD_KQQBzJMkd94y_r5pkAFegBijQr3LEbBWZ2''"

definition ex_seller :: string where
  "ex_seller = ''EQ'' @ replicate 46 (CHR ''A'')"

definition ex_escrow :: string where
  "ex_escrow = ''UQ'' @ replicate 46 (CHR ''B'')"

definition ex_env :: env where
  "ex_env =
     \<lparr>now = 1000, now_ms = 1000000,
      py_float = (\<lambda>s. if s = ''1.5'' then Some (Finite (3 / 2))
                      else if s = ''0.0000001'' then Some (binary64 (1 / 10000000))
                      else if s = ''0.7'' then Some (binary64 (7 / 10))
                      else None),
      wallet_lib = Inr \<lparr>kp_address = ex_escrow, kp_private_key = ''k''\<rparr>\<rparr>"

definition ex_env_lib_down :: env where
  "ex_env_lib_down = ex_env\<lparr>wallet_lib := Inl ''connection failed''\<rparr>"

definition ex_msg :: "string \<Rightarrow> message" where
  "ex_msg t = \<lparr>from_user = 7, msg_text = t, msg_date = 995\<rparr>"

definition ex_waiting_amount :: session where
  "ex_waiting_amount =
     empty_dict\<lparr>step := Some waiting_amount, started_at := Some 990,
                seller_wallet := Some ex_seller\<rparr>"

definition ex_completed :: session where
  "ex_completed =
     \<lparr>step = Some completed, started_at = Some 990, seller_wallet = Some ex_seller,
      amount = Some (Finite (3 / 2)), fee_amount = Some (binary64 (3 / 40)),
      seller_amount = Some (binary64 (57 / 40)),
      escrow_address = Some ex_escrow, escrow_private_key = Some ''k'',
      transaction_id = Some ''7_1000''\<rparr>"

definition ex_record :: escrow_record where
  "ex_record =
     \<lparr>w_address = ex_escrow, w_private_key = ''k'', w_created_at = ''1000000'',
      w_wallet_object = Some ''k'', rec_user_id = 7, rec_seller_wallet = ex_seller,
      rec_amount = Finite (3 / 2), rec_fee_amount = binary64 (3 / 40),
      rec_seller_amount = binary64 (57 / 40),
      status = ''waiting_payment'', created_timestamp = 1000,
      rec_transaction_id = ''7_1000''\<rparr>"

definition ex_world_waiting :: world where
  "ex_world_waiting =
     \<lparr>user_sessions = [7 \<mapsto> ex_waiting_amount], escrow_wallets = Map.empty,
      outbox = [], transfers = [], monitors = []\<rparr>"

definition ex_world_funded :: world where
  "ex_world_funded =
     \<lparr>user_sessions = [7 \<mapsto> ex_completed], escrow_wallets = [''7_1000'' \<mapsto> ex_record],
      outbox = [], transfers = [], monitors = [(7, ''7_1000'')]\<rparr>"

definition quiet :: tick where
  "quiet =
     \<lparr>api_balance = Finite 0, seller_net = True, fee_net = True, during_query = id,
      interference = id\<rparr>"

text \<open>A tick during whose balance query user 7 sends the start command.\<close>

definition start_during_query :: tick where
  "start_during_query =
     quiet\<lparr>api_balance := Finite 2, during_query := start_handler (ex_msg ''/start'')\<rparr>"

section \<open>Properties of the address validator\<close>

lemma strip_last_not_space: "strip s \<noteq> [] \<Longrightarrow> \<not> is_space (last (strip s))"
proof -
  assume ne: "strip s \<noteq> []"
  let ?r = "dropWhile is_space (rev (dropWhile is_space s))"
  from ne have r: "?r \<noteq> []" by (simp add: strip_def)
  then have "\<not> is_space (hd ?r)" by (rule hd_dropWhile)
  moreover have "last (strip s) = hd ?r" using r by (simp add: strip_def last_rev)
  ultimately show ?thesis by simp
qed

lemma strip_id:
  "s \<noteq> [] \<Longrightarrow> \<not> is_space (hd s) \<Longrightarrow> \<not> is_space (last s) \<Longrightarrow> strip s = s"
proof -
  assume ne: "s \<noteq> []" and h: "\<not> is_space (hd s)" and l: "\<not> is_space (last s)"
  from ne h have 1: "dropWhile is_space s = s" by (cases s) simp_all
  from ne l have 2: "dropWhile is_space (rev s) = rev s"
    by (cases "rev s") (simp_all add: last_rev[symmetric] hd_rev)
  show ?thesis by (simp add: strip_def 1 2)
qed

lemma is_space_newline: "is_space (CHR 0x0A)"
  by (simp add: is_space_def)

lemma base64url_not_space: "base64url_char c \<Longrightarrow> \<not> is_space c"
  by (auto simp: base64url_char_def is_space_def Let_def)

text \<open>
  A stripped string does not end in a newline, so on the body of a stripped address the
  pattern accepts exactly the non-empty strings over the alphabet.
\<close>

lemma match_stripped:
  assumes "2 < length (strip a)"
  shows "match_base64url (drop 2 (strip a)) = list_all base64url_char (drop 2 (strip a))"
proof -
  from assms have ne: "strip a \<noteq> []" and dne: "drop 2 (strip a) \<noteq> []" by auto
  have "last (drop 2 (strip a)) = last (strip a)" using assms by simp
  with strip_last_not_space[OF ne] is_space_newline
  have "last (drop 2 (strip a)) \<noteq> CHR 0x0A" by metis
  with dne show ?thesis by (auto simp: match_base64url_def)
qed

lemma prefix_check:
  "list_ex (startswith s) valid_prefixes \<longleftrightarrow> take 2 s \<in> {''EQ'', ''UQ'', ''kQ'', ''0Q''}"
  by (simp add: valid_prefixes_def startswith_def numeral_2_eq_2)

lemma valid_iff:
  "is_valid_ton_address a \<longleftrightarrow>
     48 \<le> length (strip a) \<and> length (strip a) \<le> 50
     \<and> take 2 (strip a) \<in> {''EQ'', ''UQ'', ''kQ'', ''0Q''}
     \<and> list_all base64url_char (drop 2 (strip a))"
proof (cases "48 \<le> length (strip a)")
  case True
  then have "2 < length (strip a)" by simp
  from match_stripped[OF this] True show ?thesis
    unfolding is_valid_ton_address_def Let_def prefix_check by auto
next
  case False
  then show ?thesis by (simp add: is_valid_ton_address_def Let_def)
qed

lemma strip_EQ_body:
  assumes "list_all base64url_char body"
  shows "strip (''EQ'' @ body) = ''EQ'' @ body"
proof (rule strip_id)
  show "''EQ'' @ body \<noteq> []" by simp
  show "\<not> is_space (hd (''EQ'' @ body))" by (simp add: is_space_def)
  show "\<not> is_space (last (''EQ'' @ body))"
  proof (cases "body = []")
    case True then show ?thesis by (simp add: is_space_def)
  next
    case False
    with assms have "base64url_char (last body)" by (simp add: list_all_iff)
    with False show ?thesis by (simp add: base64url_not_space)
  qed
qed

lemma valid_EQ_body:
  assumes "list_all base64url_char body"
  shows "is_valid_ton_address (''EQ'' @ body) \<longleftrightarrow> 46 \<le> length body \<and> length body \<le> 48"
proof -
  define s where "s = ''EQ'' @ body"
  have st: "strip s = s" unfolding s_def by (rule strip_EQ_body[OF assms])
  have l: "length s = length body + 2" and t: "take 2 s = ''EQ''" and d: "drop 2 s = body"
    by (simp_all add: s_def)
  have "is_valid_ton_address s \<longleftrightarrow> 46 \<le> length body \<and> length body \<le> 48"
    unfolding valid_iff st l t d using assms by auto
  then show ?thesis by (simp only: s_def)
qed

lemma EQ_scenario:
  assumes "length body = 46" "list_all base64url_char body"
  shows "is_valid_ton_address (''EQ'' @ body)
         \<and> \<not> is_valid_ton_address (take 47 (''EQ'' @ body))"
proof -
  have a: "is_valid_ton_address (''EQ'' @ body)"
    using assms by (simp only: valid_EQ_body) simp
  have t: "take 47 (''EQ'' @ body) = ''EQ'' @ take 45 body" by simp
  have "list_all base64url_char (take 45 body)" using assms(2)
    by (auto simp: list_all_iff dest: in_set_takeD)
  then have n: "\<not> is_valid_ton_address (''EQ'' @ take 45 body)"
    using assms(1) by (simp only: valid_EQ_body) simp
  show ?thesis unfolding t using a n by blast
qed

text \<open>
  C9, as the claim states it, is false: the validator strips surrounding whitespace before
  it checks anything, so it accepts a string that does not itself begin with a recognised
  prefix. Here a 49-character string starting with a space is accepted.
\<close>

theorem C9_unstripped_counterexample:
  "is_valid_ton_address ('' EQ'' @ replicate 46 (CHR ''A''))
   \<and> take 2 ('' EQ'' @ replicate 46 (CHR ''A'')) \<notin> {''EQ'', ''UQ'', ''kQ'', ''0Q''}"
  by code_simp

text \<open>
  C9, amended: the validator is a function of its argument alone, and it accepts a string
  if and only if the string with leading and trailing whitespace stripped has a length
  from 48 to 50, begins with one of EQ, UQ, kQ, 0Q, and has only characters of
  \<open>[A-Za-z0-9_-]\<close> after the first two. In particular EQ followed by 46 characters of the
  alphabet is accepted and its first 47 characters are rejected.
\<close>

theorem C9_validator_characterised:
  "(is_valid_ton_address a \<longleftrightarrow>
      48 \<le> length (strip a) \<and> length (strip a) \<le> 50
      \<and> take 2 (strip a) \<in> {''EQ'', ''UQ'', ''kQ'', ''0Q''}
      \<and> list_all base64url_char (drop 2 (strip a)))
   \<and> (length body = 46 \<and> list_all base64url_char body \<longrightarrow>
        is_valid_ton_address (''EQ'' @ body)
        \<and> \<not> is_valid_ton_address (take 47 (''EQ'' @ body)))"
  using valid_iff[of a] EQ_scenario[of body] by blast

theorem C9_validator_witness:
  "length (replicate 46 (CHR ''A'')) = 46
   \<and> list_all base64url_char (replicate 46 (CHR ''A''))
   \<and> is_valid_ton_address (''EQ'' @ replicate 46 (CHR ''A''))
   \<and> \<not> is_valid_ton_address (take 47 (''EQ'' @ replicate 46 (CHR ''A'')))"
proof -
  have h: "length (replicate 46 (CHR ''A'')) = 46
           \<and> list_all base64url_char (replicate 46 (CHR ''A''))"
    by (simp add: list_all_iff base64url_char_def)
  with C9_validator_characterised[of DEFAULT_FEE_WALLET "replicate 46 (CHR ''A'')"]
  show ?thesis by blast
qed

section \<open>Properties of float arithmetic\<close>

text \<open>
  Rounding to binary64 is evaluated through the exponent: an \<open>e\<close> with
  \<open>2 ^ (e + 52) <= |x| < 2 ^ (e + 53)\<close> is the exponent the search finds. The lemmas after
  that are the float operations of the scenarios, each one evaluated this way.
\<close>

lemma pow2_powi: "pow2 e = 2 powi e"
  by (simp add: pow2_def power_int_def inverse_eq_divide power_one_over)

lemma pow2_mono: "a \<le> b \<Longrightarrow> pow2 a \<le> pow2 b"
  unfolding pow2_powi by (rule power_int_increasing) simp_all

lemma pow2_pos: "0 < pow2 e"
  by (simp add: pow2_def)

lemma pow2_add: "pow2 (a + b) = pow2 a * pow2 b"
  unfolding pow2_powi by (rule power_int_add) simp

lemma find_upto_first:
  fixes a b e :: int
  assumes "a \<le> e" and "e \<le> b" and "P e" and "\<forall>k. a \<le> k \<and> k < e \<longrightarrow> \<not> P k"
  shows "List.find P [a..b] = Some e"
proof -
  let ?i = "nat (e - a)"
  have len: "?i < length [a..b]" using assms(1,2) by simp
  have nth: "[a..b] ! ?i = e" using assms(1,2) by simp
  have before: "\<forall>j<?i. \<not> P ([a..b] ! j)"
  proof (intro allI impI)
    fix j assume j: "j < ?i"
    then have nj: "[a..b] ! j = a + int j" using assms(2) by simp
    from j have "a \<le> a + int j \<and> a + int j < e" by auto
    with assms(4) show "\<not> P ([a..b] ! j)" unfolding nj by blast
  qed
  show ?thesis unfolding find_Some_iff
    using len nth before assms(3) by (intro exI[of _ ?i]) simp
qed

lemma float_exponent_eq:
  assumes "- 1074 \<le> e" and "e \<le> 971" and "\<bar>x\<bar> < pow2 (e + 53)"
      and "e = - 1074 \<or> pow2 (e + 52) \<le> \<bar>x\<bar>"
  shows "float_exponent x = e"
proof -
  let ?P = "\<lambda>e. \<bar>x\<bar> < pow2 (e + 53)"
  have before: "\<forall>k. - 1074 \<le> k \<and> k < e \<longrightarrow> \<not> ?P k"
  proof (intro allI impI)
    fix k assume k: "- 1074 \<le> k \<and> k < e"
    then have ne: "e \<noteq> - 1074" by auto
    have "k + 53 \<le> e + 52" using k by simp
    then have "pow2 (k + 53) \<le> pow2 (e + 52)" by (rule pow2_mono)
    also have "\<dots> \<le> \<bar>x\<bar>" using assms(4) ne by simp
    finally show "\<not> ?P k" by simp
  qed
  have "List.find ?P [- 1074..971] = Some e"
    by (rule find_upto_first[OF assms(1,2) assms(3) before])
  then show ?thesis by (simp only: float_exponent_def option.case)
qed

lemma round_half_even_le: "round_half_even x \<le> \<lfloor>x\<rfloor> + 1"
  by (simp add: round_half_even_def Let_def)

lemma round_half_even_bound:
  assumes "x < of_int N"
  shows "round_half_even x \<le> N"
proof -
  from assms have "\<lfloor>x\<rfloor> < N" by (simp add: floor_less_iff)
  with round_half_even_le[of x] show ?thesis by simp
qed

lemma binary64_finite:
  assumes "- 1074 \<le> e" and "e \<le> 970" and "\<bar>x\<bar> < pow2 (e + 53)"
      and "e = - 1074 \<or> pow2 (e + 52) \<le> \<bar>x\<bar>"
  shows "binary64 x = Finite (sgn x * of_int (round_half_even (\<bar>x\<bar> / pow2 e)) * pow2 e)"
proof -
  have e: "float_exponent x = e" using assms by (intro float_exponent_eq) simp_all
  let ?m = "round_half_even (\<bar>x\<bar> / pow2 e)"
  have "\<bar>x\<bar> / pow2 e < pow2 53"
    using assms(3) pow2_pos[of e] by (simp add: pow2_add divide_less_eq mult.commute)
  also have "pow2 53 = of_int (2 ^ 53)" by (simp add: pow2_def)
  finally have "?m \<le> 2 ^ 53" by (rule round_half_even_bound)
  then have "(of_int ?m :: rat) \<le> of_int (2 ^ 53)" by (simp only: of_int_le_iff)
  also have "(of_int (2 ^ 53) :: rat) = pow2 53" by (simp add: pow2_def)
  finally have "of_int ?m * pow2 e \<le> pow2 53 * pow2 e"
    using pow2_pos[of e] by (simp add: mult_right_mono)
  also have "\<dots> = pow2 (e + 53)" by (simp add: pow2_add mult.commute)
  also have "\<dots> \<le> pow2 1023" using assms(2) by (intro pow2_mono) simp
  also have "\<dots> < 2 ^ 1024" by (simp add: pow2_def)
  finally have "\<not> 2 ^ 1024 \<le> of_int ?m * pow2 e" by simp
  then show ?thesis using e assms(2) by (simp add: binary64_def Let_def)
qed


lemma b64_rate: "binary64 (1 / 20) = Finite (3602879701896397 / 2 ^ 56)"
proof -
  have r: "round_half_even (\<bar>1 / 20\<bar> / pow2 (- 57)) = 7205759403792794" by code_simp
  have "binary64 (1 / 20)
          = Finite (sgn (1 / 20) * of_int (round_half_even (\<bar>1 / 20\<bar> / pow2 (- 57))) * pow2 (- 57))"
    by (rule binary64_finite) (simp_all add: pow2_def)
  then show ?thesis unfolding r by (simp add: pow2_def)
qed

lemma FEE_PERCENTAGE_value: "FEE_PERCENTAGE = Finite (3602879701896397 / 2 ^ 56)"
  unfolding FEE_PERCENTAGE_def using b64_rate by simp

lemma b64_zero: "binary64 (0) = Finite (0)"
proof -
  have r: "round_half_even (\<bar>0\<bar> / pow2 (- 1074)) = 0" by code_simp
  have "binary64 (0)
          = Finite (sgn (0) * of_int (round_half_even (\<bar>0\<bar> / pow2 (- 1074))) * pow2 (- 1074))"
    by (rule binary64_finite) (simp_all add: pow2_def)
  then show ?thesis unfolding r by (simp add: pow2_def)
qed

lemma s15_product: "binary64 (10808639105689191 / 2 ^ 57) = Finite (1351079888211149 / 2 ^ 54)"
proof -
  have r: "round_half_even (\<bar>10808639105689191 / 2 ^ 57\<bar> / pow2 (- 56)) = 5404319552844596" by code_simp
  have "binary64 (10808639105689191 / 2 ^ 57)
          = Finite (sgn (10808639105689191 / 2 ^ 57) * of_int (round_half_even (\<bar>10808639105689191 / 2 ^ 57\<bar> / pow2 (- 56))) * pow2 (- 56))"
    by (rule binary64_finite) (simp_all add: pow2_def)
  then show ?thesis unfolding r by (simp add: pow2_def)
qed

lemma s15_mul: "fmul (Finite (3 / 2)) FEE_PERCENTAGE = Finite (1351079888211149 / 2 ^ 54)"
proof -
  have x: "(3 / 2) * (3602879701896397 / 2 ^ 56) = (10808639105689191 / 2 ^ 57 :: rat)" by simp
  show ?thesis unfolding FEE_PERCENTAGE_value fmul.simps x by (rule s15_product)
qed

lemma s15_fee_decimal: "py_round (1351079888211149 / 2 ^ 54) 6 = 3 / 40"
  by code_simp

lemma s15_fee_float: "binary64 (3 / 40) = Finite (5404319552844595 / 2 ^ 56)"
proof -
  have r: "round_half_even (\<bar>3 / 40\<bar> / pow2 (- 56)) = 5404319552844595" by code_simp
  have "binary64 (3 / 40)
          = Finite (sgn (3 / 40) * of_int (round_half_even (\<bar>3 / 40\<bar> / pow2 (- 56))) * pow2 (- 56))"
    by (rule binary64_finite) (simp_all add: pow2_def)
  then show ?thesis unfolding r by (simp add: pow2_def)
qed

lemma s15_fee: "fround (fmul (Finite (3 / 2)) FEE_PERCENTAGE) 6 = Finite (5404319552844595 / 2 ^ 56)"
  unfolding s15_mul fround.simps s15_fee_decimal by (rule s15_fee_float)

lemma s15_difference: "binary64 (102682071504047309 / 2 ^ 56) = Finite (6417629469002957 / 2 ^ 52)"
proof -
  have r: "round_half_even (\<bar>102682071504047309 / 2 ^ 56\<bar> / pow2 (- 52)) = 6417629469002957" by code_simp
  have "binary64 (102682071504047309 / 2 ^ 56)
          = Finite (sgn (102682071504047309 / 2 ^ 56) * of_int (round_half_even (\<bar>102682071504047309 / 2 ^ 56\<bar> / pow2 (- 52))) * pow2 (- 52))"
    by (rule binary64_finite) (simp_all add: pow2_def)
  then show ?thesis unfolding r by (simp add: pow2_def)
qed

lemma s15_sub: "fsub (Finite (3 / 2)) (Finite (5404319552844595 / 2 ^ 56)) = Finite (6417629469002957 / 2 ^ 52)"
proof -
  have x: "(3 / 2) + - (5404319552844595 / 2 ^ 56) = (102682071504047309 / 2 ^ 56 :: rat)" by simp
  show ?thesis unfolding fsub_def fneg.simps fadd.simps x by (rule s15_difference)
qed

lemma s15_seller_decimal: "py_round (6417629469002957 / 2 ^ 52) 6 = 57 / 40"
  by code_simp

lemma s15_seller_float: "binary64 (57 / 40) = Finite (6417629469002957 / 2 ^ 52)"
proof -
  have r: "round_half_even (\<bar>57 / 40\<bar> / pow2 (- 52)) = 6417629469002957" by code_simp
  have "binary64 (57 / 40)
          = Finite (sgn (57 / 40) * of_int (round_half_even (\<bar>57 / 40\<bar> / pow2 (- 52))) * pow2 (- 52))"
    by (rule binary64_finite) (simp_all add: pow2_def)
  then show ?thesis unfolding r by (simp add: pow2_def)
qed

lemma s15_seller:
  "fround (fsub (Finite (3 / 2)) (Finite (5404319552844595 / 2 ^ 56))) 6 = Finite (6417629469002957 / 2 ^ 52)"
  unfolding s15_sub fround.simps s15_seller_decimal by (rule s15_seller_float)

lemma s15_total: "binary64 (108086391056891907 / 2 ^ 56) = Finite (3 / 2)"
proof -
  have r: "round_half_even (\<bar>108086391056891907 / 2 ^ 56\<bar> / pow2 (- 52)) = 6755399441055744" by code_simp
  have "binary64 (108086391056891907 / 2 ^ 56)
          = Finite (sgn (108086391056891907 / 2 ^ 56) * of_int (round_half_even (\<bar>108086391056891907 / 2 ^ 56\<bar> / pow2 (- 52))) * pow2 (- 52))"
    by (rule binary64_finite) (simp_all add: pow2_def)
  then show ?thesis unfolding r by (simp add: pow2_def)
qed

lemma s15_sum: "fadd (Finite (5404319552844595 / 2 ^ 56)) (Finite (6417629469002957 / 2 ^ 52)) = Finite (3 / 2)"
proof -
  have x: "(5404319552844595 / 2 ^ 56) + (6417629469002957 / 2 ^ 52) = (108086391056891907 / 2 ^ 56 :: rat)" by simp
  show ?thesis unfolding fadd.simps x by (rule s15_total)
qed

lemma b64_tiny: "binary64 (1 / 10000000) = Finite (944473296573929 / 2 ^ 73)"
proof -
  have r: "round_half_even (\<bar>1 / 10000000\<bar> / pow2 (- 76)) = 7555786372591432" by code_simp
  have "binary64 (1 / 10000000)
          = Finite (sgn (1 / 10000000) * of_int (round_half_even (\<bar>1 / 10000000\<bar> / pow2 (- 76))) * pow2 (- 76))"
    by (rule binary64_finite) (simp_all add: pow2_def)
  then show ?thesis unfolding r by (simp add: pow2_def)
qed

lemma tiny_product: "binary64 (3402823669209384669544209233813 / 2 ^ 129) = Finite (3022314549036573 / 2 ^ 79)"
proof -
  have r: "round_half_even (\<bar>3402823669209384669544209233813 / 2 ^ 129\<bar> / pow2 (- 80)) = 6044629098073146" by code_simp
  have "binary64 (3402823669209384669544209233813 / 2 ^ 129)
          = Finite (sgn (3402823669209384669544209233813 / 2 ^ 129) * of_int (round_half_even (\<bar>3402823669209384669544209233813 / 2 ^ 129\<bar> / pow2 (- 80))) * pow2 (- 80))"
    by (rule binary64_finite) (simp_all add: pow2_def)
  then show ?thesis unfolding r by (simp add: pow2_def)
qed

lemma tiny_mul: "fmul (Finite (944473296573929 / 2 ^ 73)) FEE_PERCENTAGE = Finite (3022314549036573 / 2 ^ 79)"
proof -
  have x: "(944473296573929 / 2 ^ 73) * (3602879701896397 / 2 ^ 56) = (3402823669209384669544209233813 / 2 ^ 129 :: rat)" by simp
  show ?thesis unfolding FEE_PERCENTAGE_value fmul.simps x by (rule tiny_product)
qed

lemma tiny_fee_decimal: "py_round (3022314549036573 / 2 ^ 79) 6 = 0"
  by code_simp

lemma tiny_fee: "fround (fmul (Finite (944473296573929 / 2 ^ 73)) FEE_PERCENTAGE) 6 = Finite (0)"
  unfolding tiny_mul fround.simps tiny_fee_decimal by (rule b64_zero)

lemma tiny_difference: "binary64 (944473296573929 / 2 ^ 73) = Finite (944473296573929 / 2 ^ 73)"
proof -
  have r: "round_half_even (\<bar>944473296573929 / 2 ^ 73\<bar> / pow2 (- 76)) = 7555786372591432" by code_simp
  have "binary64 (944473296573929 / 2 ^ 73)
          = Finite (sgn (944473296573929 / 2 ^ 73) * of_int (round_half_even (\<bar>944473296573929 / 2 ^ 73\<bar> / pow2 (- 76))) * pow2 (- 76))"
    by (rule binary64_finite) (simp_all add: pow2_def)
  then show ?thesis unfolding r by (simp add: pow2_def)
qed

lemma tiny_sub: "fsub (Finite (944473296573929 / 2 ^ 73)) (Finite (0)) = Finite (944473296573929 / 2 ^ 73)"
proof -
  have x: "(944473296573929 / 2 ^ 73) + - (0) = (944473296573929 / 2 ^ 73 :: rat)" by simp
  show ?thesis unfolding fsub_def fneg.simps fadd.simps x by (rule tiny_difference)
qed

lemma tiny_seller_decimal: "py_round (944473296573929 / 2 ^ 73) 6 = 0"
  by code_simp

lemma tiny_seller:
  "fround (fsub (Finite (944473296573929 / 2 ^ 73)) (Finite (0))) 6 = Finite (0)"
  unfolding tiny_sub fround.simps tiny_seller_decimal by (rule b64_zero)

lemma tiny_sum: "fadd (Finite (0)) (Finite (0)) = Finite 0"
proof -
  have x: "(0) + (0) = (0 :: rat)" by simp
  show ?thesis unfolding fadd.simps x by (rule b64_zero)
qed

lemma b64_07: "binary64 (7 / 10) = Finite (3152519739159347 / 2 ^ 52)"
proof -
  have r: "round_half_even (\<bar>7 / 10\<bar> / pow2 (- 53)) = 6305039478318694" by code_simp
  have "binary64 (7 / 10)
          = Finite (sgn (7 / 10) * of_int (round_half_even (\<bar>7 / 10\<bar> / pow2 (- 53))) * pow2 (- 53))"
    by (rule binary64_finite) (simp_all add: pow2_def)
  then show ?thesis unfolding r by (simp add: pow2_def)
qed

lemma s07_product: "binary64 (11358149378044935347338468172759 / 2 ^ 108) = Finite (5044031582654955 / 2 ^ 57)"
proof -
  have r: "round_half_even (\<bar>11358149378044935347338468172759 / 2 ^ 108\<bar> / pow2 (- 57)) = 5044031582654955" by code_simp
  have "binary64 (11358149378044935347338468172759 / 2 ^ 108)
          = Finite (sgn (11358149378044935347338468172759 / 2 ^ 108) * of_int (round_half_even (\<bar>11358149378044935347338468172759 / 2 ^ 108\<bar> / pow2 (- 57))) * pow2 (- 57))"
    by (rule binary64_finite) (simp_all add: pow2_def)
  then show ?thesis unfolding r by (simp add: pow2_def)
qed

lemma s07_mul: "fmul (Finite (3152519739159347 / 2 ^ 52)) FEE_PERCENTAGE = Finite (5044031582654955 / 2 ^ 57)"
proof -
  have x: "(3152519739159347 / 2 ^ 52) * (3602879701896397 / 2 ^ 56) = (11358149378044935347338468172759 / 2 ^ 108 :: rat)" by simp
  show ?thesis unfolding FEE_PERCENTAGE_value fmul.simps x by (rule s07_product)
qed

lemma s07_fee_decimal: "py_round (5044031582654955 / 2 ^ 57) 6 = 7 / 200"
  by code_simp

lemma s07_fee_float: "binary64 (7 / 200) = Finite (1261007895663739 / 2 ^ 55)"
proof -
  have r: "round_half_even (\<bar>7 / 200\<bar> / pow2 (- 57)) = 5044031582654956" by code_simp
  have "binary64 (7 / 200)
          = Finite (sgn (7 / 200) * of_int (round_half_even (\<bar>7 / 200\<bar> / pow2 (- 57))) * pow2 (- 57))"
    by (rule binary64_finite) (simp_all add: pow2_def)
  then show ?thesis unfolding r by (simp add: pow2_def)
qed

lemma s07_fee: "fround (fmul (Finite (3152519739159347 / 2 ^ 52)) FEE_PERCENTAGE) 6 = Finite (1261007895663739 / 2 ^ 55)"
  unfolding s07_mul fround.simps s07_fee_decimal by (rule s07_fee_float)

lemma s07_difference: "binary64 (23959150017611037 / 2 ^ 55) = Finite (5989787504402759 / 2 ^ 53)"
proof -
  have r: "round_half_even (\<bar>23959150017611037 / 2 ^ 55\<bar> / pow2 (- 53)) = 5989787504402759" by code_simp
  have "binary64 (23959150017611037 / 2 ^ 55)
          = Finite (sgn (23959150017611037 / 2 ^ 55) * of_int (round_half_even (\<bar>23959150017611037 / 2 ^ 55\<bar> / pow2 (- 53))) * pow2 (- 53))"
    by (rule binary64_finite) (simp_all add: pow2_def)
  then show ?thesis unfolding r by (simp add: pow2_def)
qed

lemma s07_sub: "fsub (Finite (3152519739159347 / 2 ^ 52)) (Finite (1261007895663739 / 2 ^ 55)) = Finite (5989787504402759 / 2 ^ 53)"
proof -
  have x: "(3152519739159347 / 2 ^ 52) + - (1261007895663739 / 2 ^ 55) = (23959150017611037 / 2 ^ 55 :: rat)" by simp
  show ?thesis unfolding fsub_def fneg.simps fadd.simps x by (rule s07_difference)
qed

lemma s07_seller_decimal: "py_round (5989787504402759 / 2 ^ 53) 6 = 133 / 200"
  by code_simp

lemma s07_seller_float: "binary64 (133 / 200) = Finite (748723438050345 / 2 ^ 50)"
proof -
  have r: "round_half_even (\<bar>133 / 200\<bar> / pow2 (- 53)) = 5989787504402760" by code_simp
  have "binary64 (133 / 200)
          = Finite (sgn (133 / 200) * of_int (round_half_even (\<bar>133 / 200\<bar> / pow2 (- 53))) * pow2 (- 53))"
    by (rule binary64_finite) (simp_all add: pow2_def)
  then show ?thesis unfolding r by (simp add: pow2_def)
qed

lemma s07_seller:
  "fround (fsub (Finite (3152519739159347 / 2 ^ 52)) (Finite (1261007895663739 / 2 ^ 55))) 6 = Finite (748723438050345 / 2 ^ 50)"
  unfolding s07_sub fround.simps s07_seller_decimal by (rule s07_seller_float)

lemma s07_total: "binary64 (25220157913274779 / 2 ^ 55) = Finite (6305039478318695 / 2 ^ 53)"
proof -
  have r: "round_half_even (\<bar>25220157913274779 / 2 ^ 55\<bar> / pow2 (- 53)) = 6305039478318695" by code_simp
  have "binary64 (25220157913274779 / 2 ^ 55)
          = Finite (sgn (25220157913274779 / 2 ^ 55) * of_int (round_half_even (\<bar>25220157913274779 / 2 ^ 55\<bar> / pow2 (- 53))) * pow2 (- 53))"
    by (rule binary64_finite) (simp_all add: pow2_def)
  then show ?thesis unfolding r by (simp add: pow2_def)
qed

lemma s07_sum: "fadd (Finite (1261007895663739 / 2 ^ 55)) (Finite (748723438050345 / 2 ^ 50)) = Finite (6305039478318695 / 2 ^ 53)"
proof -
  have x: "(1261007895663739 / 2 ^ 55) + (748723438050345 / 2 ^ 50) = (25220157913274779 / 2 ^ 55 :: rat)" by simp
  show ?thesis unfolding fadd.simps x by (rule s07_total)
qed

lemma b64_012345: "binary64 (2469 / 20000) = Finite (2223877495995551 / 2 ^ 54)"
proof -
  have r: "round_half_even (\<bar>2469 / 20000\<bar> / pow2 (- 56)) = 8895509983982204" by code_simp
  have "binary64 (2469 / 20000)
          = Finite (sgn (2469 / 20000) * of_int (round_half_even (\<bar>2469 / 20000\<bar> / pow2 (- 56))) * pow2 (- 56))"
    by (rule binary64_finite) (simp_all add: pow2_def)
  then show ?thesis unfolding r by (simp add: pow2_def)
qed

lemma s012345_product: "binary64 (8012363089826556599988174929747 / 2 ^ 110) = Finite (1779101996796441 / 2 ^ 58)"
proof -
  have r: "round_half_even (\<bar>8012363089826556599988174929747 / 2 ^ 110\<bar> / pow2 (- 60)) = 7116407987185764" by code_simp
  have "binary64 (8012363089826556599988174929747 / 2 ^ 110)
          = Finite (sgn (8012363089826556599988174929747 / 2 ^ 110) * of_int (round_half_even (\<bar>8012363089826556599988174929747 / 2 ^ 110\<bar> / pow2 (- 60))) * pow2 (- 60))"
    by (rule binary64_finite) (simp_all add: pow2_def)
  then show ?thesis unfolding r by (simp add: pow2_def)
qed

lemma s012345_mul: "fmul (Finite (2223877495995551 / 2 ^ 54)) FEE_PERCENTAGE = Finite (1779101996796441 / 2 ^ 58)"
proof -
  have x: "(2223877495995551 / 2 ^ 54) * (3602879701896397 / 2 ^ 56) = (8012363089826556599988174929747 / 2 ^ 110 :: rat)" by simp
  show ?thesis unfolding FEE_PERCENTAGE_value fmul.simps x by (rule s012345_product)
qed

lemma s012345_fee_decimal: "py_round (1779101996796441 / 2 ^ 58) 6 = 6173 / 1000000"
  by code_simp

lemma s012345_fee_float: "binary64 (6173 / 1000000) = Finite (3558492223969033 / 2 ^ 59)"
proof -
  have r: "round_half_even (\<bar>6173 / 1000000\<bar> / pow2 (- 60)) = 7116984447938066" by code_simp
  have "binary64 (6173 / 1000000)
          = Finite (sgn (6173 / 1000000) * of_int (round_half_even (\<bar>6173 / 1000000\<bar> / pow2 (- 60))) * pow2 (- 60))"
    by (rule binary64_finite) (simp_all add: pow2_def)
  then show ?thesis unfolding r by (simp add: pow2_def)
qed

text \<open>
  The product 0.12345 * 0.05 is a float just above 0.0061725, so the fee rounds up to
  0.006173, where the exact decimal product would be a tie.
\<close>

lemma fee_at_012345:
  "fround (fmul (binary64 (12345 / 100000)) FEE_PERCENTAGE) 6 = binary64 (6173 / 1000000)"
proof -
  have a: "(12345 / 100000 :: rat) = 2469 / 20000" by simp
  show ?thesis
    unfolding a b64_012345 s012345_mul fround.simps s012345_fee_decimal s012345_fee_float
    by (rule refl)
qed

section \<open>Properties of the fee computation\<close>

lemma amount_fields:
  assumes "py_float e (sanitize_user_input (strip (msg_text msg)) 20) = Some A"
      and "\<not> fle A (Finite 0)"
  shows "amount (fst (handle_amount_input g e msg sess w)) = Some A
       \<and> fee_amount (fst (handle_amount_input g e msg sess w))
           = Some (fround (fmul A FEE_PERCENTAGE) 6)
       \<and> seller_amount (fst (handle_amount_input g e msg sess w))
           = Some (fround (fsub A (fround (fmul A FEE_PERCENTAGE) 6)) 6)"
  using assms
  by (simp add: handle_amount_input_def Let_def provisioning_failed_def
           split: sum.splits option.splits)

lemma fee_15: "fround (fmul (Finite (3 / 2)) FEE_PERCENTAGE) 6 = binary64 (3 / 40)"
  unfolding s15_fee s15_fee_float by (rule refl)

lemma seller_15: "fround (fsub (Finite (3 / 2)) (binary64 (3 / 40))) 6 = binary64 (57 / 40)"
  unfolding s15_fee_float s15_seller s15_seller_float by (rule refl)

lemma sum_15: "fadd (binary64 (3 / 40)) (binary64 (57 / 40)) = Finite (3 / 2)"
  unfolding s15_fee_float s15_seller_float s15_sum by (rule refl)

lemma accepted_15: "\<not> fle (Finite (3 / 2)) (Finite 0)"
  by simp

lemma string_of_15: "sanitize_user_input (strip '' 1.5 '') 20 = ''1.5''"
  by (simp add: sanitize_user_input_def strip_def is_space_def dangerous_chars_def)

lemma scenario_parse:
  "py_float ex_env (sanitize_user_input (strip (msg_text (ex_msg '' 1.5 ''))) 20)
     = Some (Finite (3 / 2))"
  by (simp add: ex_msg_def string_of_15 ex_env_def)

lemma string_of_tiny: "sanitize_user_input (strip ''0.0000001'') 20 = ''0.0000001''"
  by (simp add: sanitize_user_input_def strip_def is_space_def dangerous_chars_def)

lemma tiny_parse:
  "py_float ex_env (sanitize_user_input (strip (msg_text (ex_msg ''0.0000001''))) 20)
     = Some (binary64 (1 / 10000000))"
  by (simp add: ex_msg_def string_of_tiny ex_env_def)

lemma accepted_tiny: "\<not> fle (binary64 (1 / 10000000)) (Finite 0)"
  unfolding b64_tiny by simp

text \<open>
  An amount with one decimal place already shows the leak: for the float 0.7 the fee is
  0.035, the seller share 0.665, and their float sum is 0.7000000000000001.
\<close>

lemma leak_at_seven_tenths:
  "fadd (fround (fmul (binary64 (7 / 10)) FEE_PERCENTAGE) 6)
        (fround (fsub (binary64 (7 / 10)) (fround (fmul (binary64 (7 / 10)) FEE_PERCENTAGE) 6)) 6)
     \<noteq> binary64 (7 / 10)"
  unfolding b64_07 s07_fee s07_seller s07_sum by simp

text \<open>
  C1, as the claim states it, is false: the seller share is \<open>round(amount - fee_amount, 6)\<close>,
  rounded on its own, so the two parts need not add up to the amount. The positive amount
  0.0000001 is accepted and stored with fee 0 and seller share 0.
\<close>

theorem C1_rounding_leak_counterexample:
  "\<not> fle (binary64 (1 / 10000000)) (Finite 0)
   \<and> amount (fst (handle_amount_input module_user_id ex_env (ex_msg ''0.0000001'')
                  ex_waiting_amount ex_world_waiting)) = Some (binary64 (1 / 10000000))
   \<and> fee_amount (fst (handle_amount_input module_user_id ex_env (ex_msg ''0.0000001'')
                  ex_waiting_amount ex_world_waiting)) = Some (Finite 0)
   \<and> seller_amount (fst (handle_amount_input module_user_id ex_env (ex_msg ''0.0000001'')
                  ex_waiting_amount ex_world_waiting)) = Some (Finite 0)
   \<and> fadd (Finite 0) (Finite 0) \<noteq> binary64 (1 / 10000000)"
proof -
  note f = amount_fields[OF tiny_parse accepted_tiny, of module_user_id ex_waiting_amount
             ex_world_waiting]
  have s: "fadd (Finite 0) (Finite 0) \<noteq> binary64 (1 / 10000000)"
    unfolding b64_tiny tiny_sum by simp
  show ?thesis using f accepted_tiny s unfolding b64_tiny tiny_fee tiny_seller by simp
qed

text \<open>
  C1, amended: for every amount \<open>A\<close> accepted at the amount step (every float that is not
  \<open><= 0\<close>), the session stores \<open>A\<close>, the fee \<open>round(A * 0.05, 6)\<close> and the seller share
  \<open>round(A - fee, 6)\<close>, each computed in float arithmetic and rounded on its own, on every
  path through wallet provisioning. For \<open>A = 1.5\<close> the fee is 0.075, the seller share 1.425
  and their float sum exactly 1.5. (For other amounts the sum need not be \<open>A\<close>.)
\<close>

theorem C1_fee_and_seller_share:
  assumes "py_float e (sanitize_user_input (strip (msg_text msg)) 20) = Some A"
      and "\<not> fle A (Finite 0)"
  shows "\<exists>fee seller.
           amount (fst (handle_amount_input g e msg sess w)) = Some A
         \<and> fee_amount (fst (handle_amount_input g e msg sess w)) = Some fee
         \<and> seller_amount (fst (handle_amount_input g e msg sess w)) = Some seller
         \<and> fee = fround (fmul A FEE_PERCENTAGE) 6
         \<and> seller = fround (fsub A fee) 6
         \<and> (A = Finite (3 / 2) \<longrightarrow>
              fee = binary64 (3 / 40) \<and> seller = binary64 (57 / 40)
              \<and> fadd fee seller = Finite (3 / 2))"
proof -
  let ?fee = "fround (fmul A FEE_PERCENTAGE) 6"
  let ?seller = "fround (fsub A ?fee) 6"
  have sc: "A = Finite (3 / 2) \<longrightarrow>
              ?fee = binary64 (3 / 40) \<and> ?seller = binary64 (57 / 40)
              \<and> fadd ?fee ?seller = Finite (3 / 2)"
  proof
    assume A: "A = Finite (3 / 2)"
    have f: "?fee = binary64 (3 / 40)" unfolding A by (rule fee_15)
    have s: "?seller = binary64 (57 / 40)" unfolding f unfolding A by (rule seller_15)
    show "?fee = binary64 (3 / 40) \<and> ?seller = binary64 (57 / 40)
          \<and> fadd ?fee ?seller = Finite (3 / 2)"
      unfolding s unfolding f using sum_15 by simp
  qed
  from amount_fields[OF assms, of g sess w] sc show ?thesis by blast
qed

theorem C1_fee_and_seller_share_witness:
  "py_float ex_env (sanitize_user_input (strip (msg_text (ex_msg '' 1.5 ''))) 20)
     = Some (Finite (3 / 2))
   \<and> \<not> fle (Finite (3 / 2)) (Finite 0)
   \<and> fee_amount (fst (handle_amount_input module_user_id ex_env (ex_msg '' 1.5 '')
                  ex_waiting_amount ex_world_waiting)) = Some (binary64 (3 / 40))
   \<and> seller_amount (fst (handle_amount_input module_user_id ex_env (ex_msg '' 1.5 '')
                  ex_waiting_amount ex_world_waiting)) = Some (binary64 (57 / 40))"
proof -
  from C1_fee_and_seller_share[OF scenario_parse accepted_15, of module_user_id
         ex_waiting_amount ex_world_waiting] scenario_parse accepted_15
  show ?thesis by auto
qed

section \<open>Properties of the release\<close>

lemma cleanup_sessions: "user_sessions (cleanup uid tid w) = (user_sessions w)(uid := None)"
  by (auto simp: cleanup_def Let_def domIff fun_upd_idem)

lemma cleanup_wallets: "escrow_wallets (cleanup uid tid w) = (escrow_wallets w)(tid := None)"
  by (auto simp: cleanup_def Let_def domIff fun_upd_idem)

lemma cleanup_rest:
  "outbox (cleanup uid tid w) = outbox w" "transfers (cleanup uid tid w) = transfers w"
  "monitors (cleanup uid tid w) = monitors w"
  by (simp_all add: cleanup_def Let_def)

lemma send_message_fields:
  "outbox (send_message uid n w) = outbox w @ [(uid, n)]"
  "user_sessions (send_message uid n w) = user_sessions w"
  "escrow_wallets (send_message uid n w) = escrow_wallets w"
  "transfers (send_message uid n w) = transfers w"
  "monitors (send_message uid n w) = monitors w"
  by (simp_all add: send_message_def)

lemma send_ton_payment_fst:
  "fst (send_ton_payment net wl a x w) = fst (send_ton_payment net wl a x w')"
  by (auto simp: send_ton_payment_def split: option.splits pyfloat.splits)

lemma send_ton_payment_fields:
  "outbox (snd (send_ton_payment net wl a x w)) = outbox w"
  "user_sessions (snd (send_ton_payment net wl a x w)) = user_sessions w"
  "escrow_wallets (snd (send_ton_payment net wl a x w)) = escrow_wallets w"
  "monitors (snd (send_ton_payment net wl a x w)) = monitors w"
  "transfers (snd (send_ton_payment net wl a x w))
     = transfers w @ (if fst (send_ton_payment net wl a x w) then [(a, x)] else [])"
  by (simp_all add: send_ton_payment_def split: option.splits pyfloat.splits)

lemma release_effects:
  fixes s_net f_net :: bool and w :: world and wallet :: escrow_record
    and seller_address F :: string and seller fee :: pyfloat and uid :: int and tid :: string
    and sess :: session
  assumes rf: "release_fields sess = Some (amt, seller_address, escrow_addr, fee, seller)"
      and wr: "escrow_wallets w tid = Some wallet"
  defines "ss \<equiv> fst (send_ton_payment s_net wallet seller_address seller w)"
      and "fs \<equiv> fst (send_ton_payment f_net wallet F fee w)"
      and "w' \<equiv> process_escrow_release F s_net f_net uid tid sess w"
  shows "outbox w' = outbox w @ [(uid, ProcessingTransfers),
            (uid, if ss \<and> fs then EscrowCompleted amt seller fee seller_address escrow_addr
                  else if ss then PartialSuccess seller fee
                  else PaymentProcessingFailed amt escrow_addr)]"
    and "user_sessions w' = (user_sessions w)(uid := None)"
    and "escrow_wallets w' = (escrow_wallets w)(tid := None)"
    and "transfers w' = transfers w @ (if ss then [(seller_address, seller)] else [])
                          @ (if fs then [(F, fee)] else [])"
    and "monitors w' = monitors w"
proof -
  let ?w1 = "send_message uid ProcessingTransfers w"
  let ?r1 = "send_ton_payment s_net wallet seller_address seller ?w1"
  let ?r2 = "send_ton_payment f_net wallet F fee (snd ?r1)"
  have s1: "fst ?r1 = ss" unfolding ss_def by (rule send_ton_payment_fst)
  have s2: "fst ?r2 = fs" unfolding fs_def by (rule send_ton_payment_fst)
  let ?n = "if ss \<and> fs then EscrowCompleted amt seller fee seller_address escrow_addr
            else if ss then PartialSuccess seller fee
            else PaymentProcessingFailed amt escrow_addr"
  have w': "w' = cleanup uid tid (send_message uid ?n (snd ?r2))"
    unfolding w'_def process_escrow_release_def rf
    using wr s1 s2 by (simp add: Let_def send_message_fields)
  show "outbox w' = outbox w @ [(uid, ProcessingTransfers), (uid, ?n)]"
    unfolding w' by (simp only: cleanup_rest send_message_fields send_ton_payment_fields) simp
  show "user_sessions w' = (user_sessions w)(uid := None)"
    unfolding w' by (simp only: cleanup_sessions send_message_fields send_ton_payment_fields)
  show "escrow_wallets w' = (escrow_wallets w)(tid := None)"
    unfolding w' by (simp only: cleanup_wallets send_message_fields send_ton_payment_fields)
  show "transfers w' = transfers w @ (if ss then [(seller_address, seller)] else [])
                          @ (if fs then [(F, fee)] else [])"
    unfolding w' by (simp only: cleanup_rest send_message_fields send_ton_payment_fields s1 s2) simp
  show "monitors w' = monitors w"
    unfolding w' by (simp only: cleanup_rest send_message_fields send_ton_payment_fields)
qed

lemma valid_ex_seller: "is_valid_ton_address ex_seller"
  by code_simp

lemma valid_ex_escrow: "is_valid_ton_address ex_escrow"
  by code_simp

lemma valid_default_fee_wallet: "is_valid_ton_address DEFAULT_FEE_WALLET"
  by code_simp

lemma ex_release_fields:
  "release_fields ex_completed = Some (Finite (3 / 2), ex_seller, ex_escrow, binary64 (3 / 40), binary64 (57 / 40))"
  by (simp add: release_fields_def ex_completed_def)

lemma ex_funded_record: "escrow_wallets ex_world_funded ''7_1000'' = Some ex_record"
  by (simp add: ex_world_funded_def)

lemma ex_seller_leg_ok:
  "fst (send_ton_payment True ex_record ex_seller (binary64 (57 / 40)) ex_world_funded)"
  by (simp add: send_ton_payment_def valid_ex_seller ex_record_def s15_seller_float)

lemma ex_seller_leg_down:
  "\<not> fst (send_ton_payment False ex_record ex_seller (binary64 (57 / 40)) ex_world_funded)"
  by (simp add: send_ton_payment_def valid_ex_seller ex_record_def s15_seller_float)

lemma ex_fee_leg_ok:
  "fst (send_ton_payment True ex_record DEFAULT_FEE_WALLET (binary64 (3 / 40)) w)"
  by (simp add: send_ton_payment_def valid_default_fee_wallet ex_record_def s15_fee_float)

lemma ex_seller_leg_ok_anywhere:
  "fst (send_ton_payment True ex_record ex_seller (binary64 (57 / 40)) w)"
  by (simp add: send_ton_payment_def valid_ex_seller ex_record_def s15_seller_float)

lemma ex_fee_leg_down:
  "\<not> fst (send_ton_payment False ex_record DEFAULT_FEE_WALLET (binary64 (3 / 40)) ex_world_funded)"
  by (simp add: send_ton_payment_def valid_default_fee_wallet ex_record_def s15_fee_float)

text \<open>
  C2, as the claim states it, is false: after any of the three outcomes the release deletes
  the session and the wallet record alike, and no code writes a status other than
  \<open>waiting_payment\<close>. Here the seller leg succeeds, the fee leg fails, and the record of the
  transaction is gone afterwards.
\<close>

theorem C2_record_deleted_counterexample:
  "fst (send_ton_payment True ex_record ex_seller (binary64 (57 / 40)) ex_world_funded)
   \<and> \<not> fst (send_ton_payment False ex_record DEFAULT_FEE_WALLET (binary64 (3 / 40)) ex_world_funded)
   \<and> escrow_wallets ex_world_funded ''7_1000'' = Some ex_record
   \<and> escrow_wallets
        (process_escrow_release DEFAULT_FEE_WALLET True False 7 ''7_1000'' ex_completed
           ex_world_funded) ''7_1000'' = None"
  using release_effects(3)[OF ex_release_fields ex_funded_record,
          of DEFAULT_FEE_WALLET True False 7]
        ex_seller_leg_ok ex_fee_leg_down ex_funded_record
  by simp

text \<open>
  C2, amended: for every release in which the seller payout succeeds and the fee payout
  fails, the user receives the processing notice and then a partial-success notification
  naming the seller amount and the fee amount, the seller transfer is the only transfer
  made, the session is deleted, and the escrow wallet record is deleted as well (it is
  neither marked released nor retained).
\<close>

theorem C2_partial_success:
  assumes "release_fields sess = Some (amt, seller_address, escrow_addr, fee, seller)"
      and "escrow_wallets w tid = Some wallet"
      and "fst (send_ton_payment s_net wallet seller_address seller w)"
      and "\<not> fst (send_ton_payment f_net wallet F fee w)"
  shows "outbox (process_escrow_release F s_net f_net uid tid sess w)
           = outbox w @ [(uid, ProcessingTransfers), (uid, PartialSuccess seller fee)]
       \<and> user_sessions (process_escrow_release F s_net f_net uid tid sess w)
           = (user_sessions w)(uid := None)
       \<and> escrow_wallets (process_escrow_release F s_net f_net uid tid sess w)
           = (escrow_wallets w)(tid := None)
       \<and> transfers (process_escrow_release F s_net f_net uid tid sess w)
           = transfers w @ [(seller_address, seller)]"
  using release_effects[OF assms(1,2), of F s_net f_net uid] assms(3,4) by simp

theorem C2_partial_success_witness:
  "release_fields ex_completed = Some (Finite (3 / 2), ex_seller, ex_escrow, binary64 (3 / 40), binary64 (57 / 40))
   \<and> escrow_wallets ex_world_funded ''7_1000'' = Some ex_record
   \<and> fst (send_ton_payment True ex_record ex_seller (binary64 (57 / 40)) ex_world_funded)
   \<and> \<not> fst (send_ton_payment False ex_record DEFAULT_FEE_WALLET (binary64 (3 / 40)) ex_world_funded)
   \<and> outbox (process_escrow_release DEFAULT_FEE_WALLET True False 7 ''7_1000'' ex_completed
                ex_world_funded)
        = [(7, ProcessingTransfers), (7, PartialSuccess (binary64 (57 / 40)) (binary64 (3 / 40)))]
   \<and> user_sessions (process_escrow_release DEFAULT_FEE_WALLET True False 7 ''7_1000''
                ex_completed ex_world_funded) 7 = None"
  using C2_partial_success[OF ex_release_fields ex_funded_record ex_seller_leg_ok ex_fee_leg_down, of 7]
        ex_release_fields ex_funded_record ex_seller_leg_ok ex_fee_leg_down
  by (simp add: ex_world_funded_def)

text \<open>
  C3, as the claim states it, is false: when the seller leg fails the release still runs
  its clean-up, and both the session and the wallet record are deleted.
\<close>

theorem C3_nothing_retained_counterexample:
  "\<not> fst (send_ton_payment False ex_record ex_seller (binary64 (57 / 40)) ex_world_funded)
   \<and> user_sessions ex_world_funded 7 = Some ex_completed
   \<and> escrow_wallets ex_world_funded ''7_1000'' = Some ex_record
   \<and> user_sessions
        (process_escrow_release DEFAULT_FEE_WALLET False False 7 ''7_1000'' ex_completed
           ex_world_funded) 7 = None
   \<and> escrow_wallets
        (process_escrow_release DEFAULT_FEE_WALLET False False 7 ''7_1000'' ex_completed
           ex_world_funded) ''7_1000'' = None"
  using release_effects(2,3)[OF ex_release_fields ex_funded_record,
          of DEFAULT_FEE_WALLET False False 7]
        ex_seller_leg_down ex_funded_record
  by (simp add: ex_world_funded_def)

text \<open>
  C3, amended: for every release in which the seller payout fails, whatever the fee leg
  does, the user is notified that the amount remains at the escrow address and that a manual
  release will follow, no transfer to the seller is made (the fee transfer is made if the
  fee leg succeeds), and the session and the escrow wallet record are both deleted (the
  record is not marked failed).
\<close>

theorem C3_seller_leg_failed:
  assumes "release_fields sess = Some (amt, seller_address, escrow_addr, fee, seller)"
      and "escrow_wallets w tid = Some wallet"
      and "\<not> fst (send_ton_payment s_net wallet seller_address seller w)"
  shows "outbox (process_escrow_release F s_net f_net uid tid sess w)
           = outbox w @ [(uid, ProcessingTransfers),
                         (uid, PaymentProcessingFailed amt escrow_addr)]
       \<and> user_sessions (process_escrow_release F s_net f_net uid tid sess w)
           = (user_sessions w)(uid := None)
       \<and> escrow_wallets (process_escrow_release F s_net f_net uid tid sess w)
           = (escrow_wallets w)(tid := None)
       \<and> transfers (process_escrow_release F s_net f_net uid tid sess w)
           = transfers w
             @ (if fst (send_ton_payment f_net wallet F fee w) then [(F, fee)] else [])"
  using release_effects[OF assms(1,2), of F s_net f_net uid] assms(3) by simp

theorem C3_seller_leg_failed_witness:
  "release_fields ex_completed = Some (Finite (3 / 2), ex_seller, ex_escrow, binary64 (3 / 40), binary64 (57 / 40))
   \<and> escrow_wallets ex_world_funded ''7_1000'' = Some ex_record
   \<and> \<not> fst (send_ton_payment False ex_record ex_seller (binary64 (57 / 40)) ex_world_funded)
   \<and> outbox (process_escrow_release DEFAULT_FEE_WALLET False True 7 ''7_1000'' ex_completed
                ex_world_funded)
        = [(7, ProcessingTransfers), (7, PaymentProcessingFailed (Finite (3 / 2)) ex_escrow)]"
  using C3_seller_leg_failed[OF ex_release_fields ex_funded_record ex_seller_leg_down, of DEFAULT_FEE_WALLET True 7]
        ex_release_fields ex_funded_record ex_seller_leg_down
  by (simp add: ex_world_funded_def)


section \<open>Properties of the escrow entry point\<close>

lemma escrow_entry_rejected:
  assumes "user_sessions w uid = Some s" and "step s = Some completed"
  shows "escrow_entry e uid w = w\<lparr>outbox := outbox w @ [(uid, AlreadyActiveEscrow)]\<rparr>"
  using assms by (simp add: escrow_entry_def send_message_def domIff)

lemma escrow_entry_accepted:
  assumes "\<not> (\<exists>s. user_sessions w uid = Some s \<and> step s = Some completed)"
  shows "escrow_entry e uid w =
           w\<lparr>user_sessions := (user_sessions w)(uid \<mapsto>
                 empty_dict\<lparr>step := Some waiting_seller_wallet, started_at := Some (now e)\<rparr>),
             outbox := outbox w @ [(uid, AskSellerAddress)]\<rparr>"
  using assms by (auto simp: escrow_entry_def send_message_def domIff split: option.splits)

text \<open>
  C6, as the claim states it, is false: the entry point refuses only a session whose step is
  \<open>completed\<close>. User 7 has a session that waits for the amount, with the seller's address
  already recorded; a "start escrow" request is accepted and replaces that session by a
  fresh one.
\<close>

theorem C6_session_replaced_counterexample:
  "user_sessions ex_world_waiting 7 = Some ex_waiting_amount
   \<and> step ex_waiting_amount = Some waiting_amount
   \<and> seller_wallet ex_waiting_amount = Some ex_seller
   \<and> outbox (escrow_entry ex_env 7 ex_world_waiting) = [(7, AskSellerAddress)]
   \<and> user_sessions (escrow_entry ex_env 7 ex_world_waiting) 7 =
       Some (empty_dict\<lparr>step := Some waiting_seller_wallet, started_at := Some 1000\<rparr>)"
proof -
  have n: "\<not> (\<exists>s. user_sessions ex_world_waiting 7 = Some s \<and> step s = Some completed)"
    by (simp add: ex_world_waiting_def ex_waiting_amount_def)
  show ?thesis unfolding escrow_entry_accepted[OF n]
    by (simp add: ex_world_waiting_def ex_waiting_amount_def ex_env_def)
qed

text \<open>
  C6, amended: a "start escrow" request is rejected exactly when the user's session is in
  the funded-waiting step (\<open>completed\<close>): the user is told that an escrow is already active
  and nothing else changes, the session included. In every other case (no session, or a
  session in an earlier step) the request is accepted, and the user's session is replaced
  by a fresh one that waits for the seller's address.
\<close>

theorem C6_start_escrow:
  "((\<exists>s. user_sessions w uid = Some s \<and> step s = Some completed) \<longrightarrow>
       escrow_entry e uid w = w\<lparr>outbox := outbox w @ [(uid, AlreadyActiveEscrow)]\<rparr>)
   \<and> (\<not> (\<exists>s. user_sessions w uid = Some s \<and> step s = Some completed) \<longrightarrow>
       escrow_entry e uid w =
         w\<lparr>user_sessions := (user_sessions w)(uid \<mapsto>
               empty_dict\<lparr>step := Some waiting_seller_wallet, started_at := Some (now e)\<rparr>),
           outbox := outbox w @ [(uid, AskSellerAddress)]\<rparr>)"
  using escrow_entry_rejected escrow_entry_accepted by blast

theorem C6_start_escrow_witness:
  "(\<exists>s. user_sessions ex_world_funded 7 = Some s \<and> step s = Some completed)
   \<and> user_sessions (escrow_entry ex_env 7 ex_world_funded) 7 = Some ex_completed
   \<and> outbox (escrow_entry ex_env 7 ex_world_funded) = [(7, AlreadyActiveEscrow)]
   \<and> \<not> (\<exists>s. user_sessions ex_world_funded 8 = Some s \<and> step s = Some completed)
   \<and> user_sessions (escrow_entry ex_env 8 ex_world_funded) 8 =
       Some (empty_dict\<lparr>step := Some waiting_seller_wallet, started_at := Some 1000\<rparr>)
   \<and> user_sessions (escrow_entry ex_env 8 ex_world_funded) 7 = Some ex_completed"
proof -
  have a: "\<exists>s. user_sessions ex_world_funded 7 = Some s \<and> step s = Some completed"
    by (simp add: ex_world_funded_def ex_completed_def)
  have b: "\<not> (\<exists>s. user_sessions ex_world_funded 8 = Some s \<and> step s = Some completed)"
    by (simp add: ex_world_funded_def)
  from C6_start_escrow[of ex_world_funded 7 ex_env] a
  have r: "escrow_entry ex_env 7 ex_world_funded =
            ex_world_funded\<lparr>outbox := outbox ex_world_funded @ [(7, AlreadyActiveEscrow)]\<rparr>"
    by blast
  from C6_start_escrow[of ex_world_funded 8 ex_env] b
  have q: "escrow_entry ex_env 8 ex_world_funded =
         ex_world_funded\<lparr>user_sessions := (user_sessions ex_world_funded)(8 \<mapsto>
               empty_dict\<lparr>step := Some waiting_seller_wallet, started_at := Some (now ex_env)\<rparr>),
           outbox := outbox ex_world_funded @ [(8, AskSellerAddress)]\<rparr>"
    by blast
  show ?thesis using a b unfolding r q by (simp add: ex_world_funded_def ex_env_def)
qed

section \<open>Properties of wallet provisioning\<close>

lemma amount_input_provisioning_failed:
  assumes "py_float e (sanitize_user_input (strip (msg_text msg)) 20) = Some A" and "\<not> fle A (Finite 0)"
      and "generate_escrow_wallet e = Inl err \<or> g = None"
  shows "handle_amount_input g e msg sess w =
           (sess\<lparr>amount := Some A,
                 fee_amount := Some (fround (fmul A FEE_PERCENTAGE) 6),
                 seller_amount :=
                   Some (fround (fsub A (fround (fmul A FEE_PERCENTAGE) 6)) 6),
                 step := Some waiting_amount\<rparr>,
            w\<lparr>outbox := outbox w @ [(from_user msg, GeneratingWallet),
                                     (from_user msg, WalletGenerationFailed)]\<rparr>)"
  using assms
  by (auto simp: handle_amount_input_def Let_def provisioning_failed_def send_message_def
           split: sum.splits option.splits)

lemma dispatch_waiting_amount:
  assumes "user_sessions w (from_user msg) = Some s" and "step s = Some waiting_amount"
      and "now e - msg_date msg \<le> 300"
      and "now e - (case started_at s of None \<Rightarrow> 0 | Some t \<Rightarrow> t) \<le> 1800"
  shows "handle_text_messages F e msg w =
           store_session (from_user msg) (handle_amount_input module_user_id e msg s w)"
  using assms by (simp add: handle_text_messages_def Let_def)

lemma string_of_plain_15: "sanitize_user_input (strip ''1.5'') 20 = ''1.5''"
  by (simp add: sanitize_user_input_def strip_def is_space_def dangerous_chars_def)

lemma lib_down_parse:
  "py_float ex_env_lib_down (sanitize_user_input (strip (msg_text (ex_msg ''1.5''))) 20)
     = Some (Finite (3 / 2))"
  by (simp add: ex_msg_def string_of_plain_15 ex_env_lib_down_def ex_env_def)

lemma ex_parse:
  "py_float ex_env (sanitize_user_input (strip (msg_text (ex_msg ''1.5''))) 20)
     = Some (Finite (3 / 2))"
  by (simp add: ex_msg_def string_of_plain_15 ex_env_def)

lemma lib_down_fails: "generate_escrow_wallet ex_env_lib_down = Inl ''connection failed''"
  by (simp add: generate_escrow_wallet_def ex_env_lib_down_def ex_env_def)

lemma lib_up_succeeds:
  "generate_escrow_wallet ex_env =
     Inr \<lparr>w_address = ex_escrow, w_private_key = ''k'', w_created_at = ''1000000'',
          w_wallet_object = Some ''k''\<rparr>"
proof -
  have ne: "ex_escrow \<noteq> []" by (simp add: ex_escrow_def)
  have v: "is_valid_ton_address ex_escrow" by code_simp
  have c: "str_int 1000000 = ''1000000''"
    by (simp add: str_int_def str_nat.simps digit_char_def)
  show ?thesis using ne v c by (simp add: generate_escrow_wallet_def ex_env_def)
qed

text \<open>
  C8, as the claim states it, is false: the failure branch only sets the step back. With a
  wallet library that raises, the session returns to \<open>waiting_amount\<close> and still holds the
  amount, the fee and the seller share computed from the input.
\<close>

theorem C8_fields_kept_counterexample:
  "generate_escrow_wallet ex_env_lib_down = Inl ''connection failed''
   \<and> step (fst (handle_amount_input module_user_id ex_env_lib_down (ex_msg ''1.5'')
                  ex_waiting_amount ex_world_waiting)) = Some waiting_amount
   \<and> amount (fst (handle_amount_input module_user_id ex_env_lib_down (ex_msg ''1.5'')
                  ex_waiting_amount ex_world_waiting)) = Some (Finite (3 / 2))
   \<and> fee_amount (fst (handle_amount_input module_user_id ex_env_lib_down (ex_msg ''1.5'')
                  ex_waiting_amount ex_world_waiting)) = Some (binary64 (3 / 40))
   \<and> seller_amount (fst (handle_amount_input module_user_id ex_env_lib_down (ex_msg ''1.5'')
                  ex_waiting_amount ex_world_waiting)) = Some (binary64 (57 / 40))"
proof -
  have pos: "\<not> fle (Finite (3 / 2)) (Finite 0)" by simp
  have f: "generate_escrow_wallet ex_env_lib_down = Inl ''connection failed''
           \<or> module_user_id = None"
    using lib_down_fails by simp
  show ?thesis
    unfolding amount_input_provisioning_failed[OF lib_down_parse pos f]
    by (simp only: fee_15 seller_15) (simp add: lib_down_fails)
qed

text \<open>
  C8, amended: for every session in which wallet provisioning fails after a valid amount
  was entered, the step reverts to \<open>waiting_amount\<close>, the amount, fee and seller-share
  fields keep the values computed from that amount, nothing else in the session or the
  stores changes, the user is told that wallet generation failed, and the next text message
  of the user (while the session has not expired) is again handled as an amount.
\<close>

theorem C8_provisioning_failure:
  assumes "py_float e (sanitize_user_input (strip (msg_text msg)) 20) = Some A" and "\<not> fle A (Finite 0)"
      and "generate_escrow_wallet e = Inl err"
  shows "handle_amount_input g e msg sess w =
           (sess\<lparr>amount := Some A,
                 fee_amount := Some (fround (fmul A FEE_PERCENTAGE) 6),
                 seller_amount :=
                   Some (fround (fsub A (fround (fmul A FEE_PERCENTAGE) 6)) 6),
                 step := Some waiting_amount\<rparr>,
            w\<lparr>outbox := outbox w @ [(from_user msg, GeneratingWallet),
                                     (from_user msg, WalletGenerationFailed)]\<rparr>)
       \<and> (user_sessions w2 (from_user msg2) = Some (fst (handle_amount_input g e msg sess w))
            \<and> now e2 - msg_date msg2 \<le> 300
            \<and> now e2 - (case started_at sess of None \<Rightarrow> 0 | Some t \<Rightarrow> t) \<le> 1800
          \<longrightarrow> handle_text_messages F e2 msg2 w2 =
                store_session (from_user msg2)
                  (handle_amount_input module_user_id e2 msg2
                     (fst (handle_amount_input g e msg sess w)) w2))"
proof -
  have f: "generate_escrow_wallet e = Inl err \<or> g = None" using assms(3) by simp
  note r = amount_input_provisioning_failed[OF assms(1,2) f, of sess w]
  show ?thesis
  proof (intro conjI impI)
    show "handle_amount_input g e msg sess w =
           (sess\<lparr>amount := Some A,
                 fee_amount := Some (fround (fmul A FEE_PERCENTAGE) 6),
                 seller_amount :=
                   Some (fround (fsub A (fround (fmul A FEE_PERCENTAGE) 6)) 6),
                 step := Some waiting_amount\<rparr>,
            w\<lparr>outbox := outbox w @ [(from_user msg, GeneratingWallet),
                                     (from_user msg, WalletGenerationFailed)]\<rparr>)"
      by (rule r)
  next
    assume h: "user_sessions w2 (from_user msg2) = Some (fst (handle_amount_input g e msg sess w))
            \<and> now e2 - msg_date msg2 \<le> 300
            \<and> now e2 - (case started_at sess of None \<Rightarrow> 0 | Some t \<Rightarrow> t) \<le> 1800"
    let ?s = "fst (handle_amount_input g e msg sess w)"
    have st: "step ?s = Some waiting_amount" and sa: "started_at ?s = started_at sess"
      unfolding r by simp_all
    from h have 1: "user_sessions w2 (from_user msg2) = Some ?s"
      and 2: "now e2 - msg_date msg2 \<le> 300"
      and 3: "now e2 - (case started_at ?s of None \<Rightarrow> 0 | Some t \<Rightarrow> t) \<le> 1800"
      unfolding sa by simp_all
    show "handle_text_messages F e2 msg2 w2 =
                store_session (from_user msg2)
                  (handle_amount_input module_user_id e2 msg2 ?s w2)"
      by (rule dispatch_waiting_amount[OF 1 st 2 3])
  qed
qed

theorem C8_provisioning_failure_witness:
  "py_float ex_env_lib_down (sanitize_user_input (strip (msg_text (ex_msg ''1.5''))) 20)
     = Some (Finite (3 / 2))
   \<and> \<not> fle (Finite (3 / 2)) (Finite 0)
   \<and> generate_escrow_wallet ex_env_lib_down = Inl ''connection failed''
   \<and> step (fst (handle_amount_input module_user_id ex_env_lib_down (ex_msg ''1.5'')
                  ex_waiting_amount ex_world_waiting)) = Some waiting_amount
   \<and> outbox (snd (handle_amount_input module_user_id ex_env_lib_down (ex_msg ''1.5'')
                  ex_waiting_amount ex_world_waiting))
        = [(7, GeneratingWallet), (7, WalletGenerationFailed)]
   \<and> handle_text_messages DEFAULT_FEE_WALLET ex_env_lib_down (ex_msg ''1.5'')
        (store_session 7 (handle_amount_input module_user_id ex_env_lib_down (ex_msg ''1.5'')
                  ex_waiting_amount ex_world_waiting))
      = store_session 7
          (handle_amount_input module_user_id ex_env_lib_down (ex_msg ''1.5'')
             (fst (handle_amount_input module_user_id ex_env_lib_down (ex_msg ''1.5'')
                  ex_waiting_amount ex_world_waiting))
             (store_session 7 (handle_amount_input module_user_id ex_env_lib_down
                  (ex_msg ''1.5'') ex_waiting_amount ex_world_waiting)))"
proof -
  have pos: "\<not> fle (Finite (3 / 2)) (Finite 0)" by simp
  let ?R = "handle_amount_input module_user_id ex_env_lib_down (ex_msg ''1.5'')
              ex_waiting_amount ex_world_waiting"
  note t = C8_provisioning_failure[OF lib_down_parse pos lib_down_fails, of module_user_id ex_waiting_amount
              ex_world_waiting "store_session 7 ?R" "ex_msg ''1.5''" ex_env_lib_down
              DEFAULT_FEE_WALLET]
  have u: "from_user (ex_msg ''1.5'') = 7" by (simp add: ex_msg_def)
  have h: "user_sessions (store_session 7 ?R) (from_user (ex_msg ''1.5'')) = Some (fst ?R)
           \<and> now ex_env_lib_down - msg_date (ex_msg ''1.5'') \<le> 300
           \<and> now ex_env_lib_down
               - (case started_at ex_waiting_amount of None \<Rightarrow> 0 | Some t \<Rightarrow> t) \<le> 1800"
    by (simp add: store_session_def ex_msg_def ex_env_lib_down_def ex_env_def
          ex_waiting_amount_def)
  from t have a: "?R = (ex_waiting_amount\<lparr>amount := Some (Finite (3 / 2)),
                 fee_amount := Some (fround (fmul (Finite (3 / 2)) FEE_PERCENTAGE) 6),
                 seller_amount := Some (fround (fsub (Finite (3 / 2))
                                    (fround (fmul (Finite (3 / 2)) FEE_PERCENTAGE) 6)) 6),
                 step := Some waiting_amount\<rparr>,
            ex_world_waiting\<lparr>outbox := outbox ex_world_waiting
               @ [(from_user (ex_msg ''1.5''), GeneratingWallet),
                  (from_user (ex_msg ''1.5''), WalletGenerationFailed)]\<rparr>)"
    by (rule conjunct1)
  have s: "step (fst ?R) = Some waiting_amount" unfolding a by simp
  have ob: "outbox (snd ?R) = [(7, GeneratingWallet), (7, WalletGenerationFailed)]"
    unfolding a by (simp add: u ex_world_waiting_def)
  from t h have d: "handle_text_messages DEFAULT_FEE_WALLET ex_env_lib_down (ex_msg ''1.5'')
        (store_session 7 ?R)
      = store_session (from_user (ex_msg ''1.5''))
          (handle_amount_input module_user_id ex_env_lib_down (ex_msg ''1.5'') (fst ?R)
             (store_session 7 ?R))"
    by blast
  show ?thesis using lib_down_parse pos lib_down_fails s ob d unfolding u by blast
qed

text \<open>
  With the name unbound, as it is in the module, the handler never stores a transaction
  identifier, never writes a wallet record and never starts a monitor. Were the name bound
  to a user id, provisioning would complete with an identifier made of that id and the
  clock's whole seconds.
\<close>

lemma no_identifier_issued:
  "transaction_id (fst (handle_amount_input module_user_id e msg sess w)) = transaction_id sess
   \<and> step (fst (handle_amount_input module_user_id e msg sess w)) \<in> {step sess, Some waiting_amount}
   \<and> escrow_wallets (snd (handle_amount_input module_user_id e msg sess w)) = escrow_wallets w
   \<and> monitors (snd (handle_amount_input module_user_id e msg sess w)) = monitors w"
  by (simp add: handle_amount_input_def module_user_id_def Let_def provisioning_failed_def
        send_message_def split: sum.splits option.splits)

lemma provisioning_with_bound_name:
  assumes "py_float e (sanitize_user_input (strip (msg_text msg)) 20) = Some A" and "\<not> fle A (Finite 0)"
      and "generate_escrow_wallet e = Inr info" and "seller_wallet sess = Some sw"
  shows "step (fst (handle_amount_input (Some uid) e msg sess w)) = Some completed
       \<and> transaction_id (fst (handle_amount_input (Some uid) e msg sess w))
           = Some (str_int uid @ ''_'' @ str_int (now e))
       \<and> (\<exists>r. escrow_wallets (snd (handle_amount_input (Some uid) e msg sess w))
                  (str_int uid @ ''_'' @ str_int (now e)) = Some r
              \<and> status r = ''waiting_payment'' \<and> w_address r = w_address info)
       \<and> monitors (snd (handle_amount_input (Some uid) e msg sess w))
           = monitors w @ [(from_user msg, str_int uid @ ''_'' @ str_int (now e))]"
  using assms
  by (simp add: handle_amount_input_def Let_def send_message_def)

text \<open>
  C7: the source does not issue a transaction identifier at all. User 7 enters the amount
  1.5 and the wallet library delivers a valid wallet; building the identifier then raises
  NameError, which the handler reports as a failed wallet generation: the session has no
  transaction identifier, no wallet record is stored and no monitor is started.
\<close>

theorem C7_no_transaction_id_issued:
  "generate_escrow_wallet ex_env =
     Inr \<lparr>w_address = ex_escrow, w_private_key = ''k'', w_created_at = ''1000000'',
          w_wallet_object = Some ''k''\<rparr>
   \<and> user_sessions (handle_text_messages DEFAULT_FEE_WALLET ex_env (ex_msg ''1.5'')
                      ex_world_waiting) 7
       = Some (ex_waiting_amount\<lparr>amount := Some (Finite (3 / 2)), fee_amount := Some (binary64 (3 / 40)),
                                 seller_amount := Some (binary64 (57 / 40))\<rparr>)
   \<and> transaction_id (ex_waiting_amount\<lparr>amount := Some (Finite (3 / 2)), fee_amount := Some (binary64 (3 / 40)),
                                 seller_amount := Some (binary64 (57 / 40))\<rparr>) = None
   \<and> escrow_wallets (handle_text_messages DEFAULT_FEE_WALLET ex_env (ex_msg ''1.5'')
                       ex_world_waiting) = Map.empty
   \<and> monitors (handle_text_messages DEFAULT_FEE_WALLET ex_env (ex_msg ''1.5'')
                 ex_world_waiting) = []
   \<and> outbox (handle_text_messages DEFAULT_FEE_WALLET ex_env (ex_msg ''1.5'')
               ex_world_waiting)
       = [(7, GeneratingWallet), (7, WalletGenerationFailed)]"
proof -
  have pos: "\<not> fle (Finite (3 / 2)) (Finite 0)" by simp
  have f: "generate_escrow_wallet ex_env = Inl [] \<or> module_user_id = None"
    by (simp add: module_user_id_def)
  have u: "from_user (ex_msg ''1.5'') = 7" by (simp add: ex_msg_def)
  have s: "user_sessions ex_world_waiting (from_user (ex_msg ''1.5'')) = Some ex_waiting_amount"
    by (simp add: ex_world_waiting_def ex_msg_def)
  have st: "step ex_waiting_amount = Some waiting_amount" by (simp add: ex_waiting_amount_def)
  have fr: "now ex_env - msg_date (ex_msg ''1.5'') \<le> 300"
    by (simp add: ex_env_def ex_msg_def)
  have ag: "now ex_env - (case started_at ex_waiting_amount of None \<Rightarrow> 0 | Some t \<Rightarrow> t) \<le> 1800"
    by (simp add: ex_env_def ex_waiting_amount_def)
  have eq: "handle_text_messages DEFAULT_FEE_WALLET ex_env (ex_msg ''1.5'') ex_world_waiting =
       ex_world_waiting
         \<lparr>user_sessions := [7 \<mapsto> ex_waiting_amount\<lparr>amount := Some (Finite (3 / 2)),
                                 fee_amount := Some (binary64 (3 / 40)),
                                 seller_amount := Some (binary64 (57 / 40))\<rparr>],
          outbox := [(7, GeneratingWallet), (7, WalletGenerationFailed)]\<rparr>"
    unfolding dispatch_waiting_amount[OF s st fr ag]
      amount_input_provisioning_failed[OF ex_parse pos f]
    by (simp only: fee_15 seller_15)
       (simp add: store_session_def u ex_world_waiting_def ex_waiting_amount_def
          empty_dict_def)
  show ?thesis unfolding eq using lib_up_succeeds
    by (simp add: ex_waiting_amount_def empty_dict_def ex_world_waiting_def)
qed

section \<open>Properties of the payment monitor\<close>

lemma max_checks_value: "max_checks = 120"
  by (simp add: max_checks_def PAYMENT_TIMEOUT_MINUTES_def PAYMENT_CHECK_INTERVAL_def)


lemma monitor_body_invalid:
  "\<not> session_valid uid tid w \<Longrightarrow> monitor_body F uid tid c t w = (Break, False, w)"
  by (simp add: monitor_body_def)

lemma monitor_timeout_invalid:
  "\<not> session_valid uid tid w \<Longrightarrow> monitor_timeout uid tid c w = w"
  by (auto simp: monitor_timeout_def session_valid_def split: option.splits)

lemma monitor_timeout_early: "c < max_checks \<Longrightarrow> monitor_timeout uid tid c w = w"
  by (simp add: monitor_timeout_def)

lemma monitor_resume_invalid:
  assumes "\<not> session_valid uid tid w"
  shows "monitor_resume F uid tid c p (t # ts) w = Done c p w"
  using assms
  by (simp add: monitor_resume_def monitor_body_invalid monitor_timeout_invalid)






text \<open>
  The funded pass: the release runs on the state as the handlers left it while the balance
  query was awaited, with the session dictionary fetched before the query.
\<close>

lemma monitor_body_funded:
  assumes "user_sessions w uid = Some sess" and "step sess = Some completed"
      and "transaction_id sess = Some tid" and "escrow_address sess = Some a"
      and "amount sess = Some expected"
      and "fle expected (get_wallet_balance (api_balance t) a)"
  shows "monitor_body F uid tid c t w =
           (Break, True,
            process_escrow_release F (seller_net t) (fee_net t) uid tid sess (during_query t w))"
proof -
  have ne: "sess \<noteq> empty_dict" using assms(2) by (auto simp: empty_dict_def)
  have v: "session_valid uid tid w" using assms(1-3) ne by (simp add: session_valid_def)
  show ?thesis using v assms by (simp add: monitor_body_def Let_def)
qed

lemma monitor_resume_funded:
  assumes "user_sessions w uid = Some sess" and "step sess = Some completed"
      and "transaction_id sess = Some tid" and "escrow_address sess = Some a"
      and "amount sess = Some expected"
      and "fle expected (get_wallet_balance (api_balance t) a)"
      and "c < max_checks"
  shows "monitor_resume F uid tid c p (t # ts) w =
           Done c (p + 1)
             (process_escrow_release F (seller_net t) (fee_net t) uid tid sess
                (during_query t w))"
  using assms(7)
  by (simp add: monitor_resume_def monitor_body_funded[OF assms(1-6)] monitor_timeout_early)






lemma invalid_cases:
  assumes "user_sessions w uid = None
           \<or> (\<exists>s. user_sessions w uid = Some s
                  \<and> (step s \<noteq> Some completed \<or> transaction_id s \<noteq> Some tid))"
  shows "\<not> session_valid uid tid w"
  using assms by (auto simp: session_valid_def)

text \<open>
  C5: at any poll (any state of the loop with the budget not yet used up), if the session
  of the user no longer exists, is not in the funded-waiting step, or carries another
  transaction identifier, the task ends at that poll: it makes no balance query, and the
  state is left as it was, so there is no notification, no transfer and no release.
\<close>

theorem C5_invalidated_monitor_stops:
  assumes "c < max_checks"
      and "user_sessions w uid = None
           \<or> (\<exists>s. user_sessions w uid = Some s
                  \<and> (step s \<noteq> Some completed \<or> transaction_id s \<noteq> Some tid))"
  shows "monitor_resume F uid tid c p (t # ts) w = Done c p w"
  by (rule monitor_resume_invalid[OF invalid_cases[OF assms(2)]])

theorem C5_invalidated_monitor_stops_witness:
  "(3::nat) < max_checks
   \<and> user_sessions ex_world_funded 8 = None
   \<and> monitor_resume DEFAULT_FEE_WALLET 8 ''8_1000'' 3 3 [quiet\<lparr>api_balance := Finite 2\<rparr>]
        ex_world_funded = Done 3 3 ex_world_funded
   \<and> user_sessions ex_world_waiting 7 = Some ex_waiting_amount
   \<and> step ex_waiting_amount \<noteq> Some completed
   \<and> monitor_resume DEFAULT_FEE_WALLET 7 ''7_1000'' 3 3 [quiet\<lparr>api_balance := Finite 2\<rparr>]
        ex_world_waiting = Done 3 3 ex_world_waiting
   \<and> user_sessions ex_world_funded 7 = Some ex_completed
   \<and> transaction_id ex_completed \<noteq> Some ''7_2000''
   \<and> monitor_resume DEFAULT_FEE_WALLET 7 ''7_2000'' 3 3 [quiet\<lparr>api_balance := Finite 2\<rparr>]
        ex_world_funded = Done 3 3 ex_world_funded"
proof -
  have c: "(3::nat) < max_checks" by (simp add: max_checks_value)
  have a1: "user_sessions ex_world_funded 8 = None" by (simp add: ex_world_funded_def)
  have a2: "user_sessions ex_world_waiting 7 = Some ex_waiting_amount"
    "step ex_waiting_amount \<noteq> Some completed"
    by (simp_all add: ex_world_waiting_def ex_waiting_amount_def)
  have a3: "user_sessions ex_world_funded 7 = Some ex_completed"
    "transaction_id ex_completed \<noteq> Some ''7_2000''"
    by (simp_all add: ex_world_funded_def ex_completed_def)
  have h1: "user_sessions ex_world_funded 8 = None
           \<or> (\<exists>s. user_sessions ex_world_funded 8 = Some s
                  \<and> (step s \<noteq> Some completed \<or> transaction_id s \<noteq> Some ''8_1000''))"
    using a1 by blast
  have h2: "user_sessions ex_world_waiting 7 = None
           \<or> (\<exists>s. user_sessions ex_world_waiting 7 = Some s
                  \<and> (step s \<noteq> Some completed \<or> transaction_id s \<noteq> Some ''7_1000''))"
    using a2 by blast
  have h3: "user_sessions ex_world_funded 7 = None
           \<or> (\<exists>s. user_sessions ex_world_funded 7 = Some s
                  \<and> (step s \<noteq> Some completed \<or> transaction_id s \<noteq> Some ''7_2000''))"
    using a3 by blast
  show ?thesis
    using c a1 a2 a3 C5_invalidated_monitor_stops[OF c h1, of DEFAULT_FEE_WALLET 3 "quiet\<lparr>api_balance := Finite 2\<rparr>" "[]"]
      C5_invalidated_monitor_stops[OF c h2, of DEFAULT_FEE_WALLET 3 "quiet\<lparr>api_balance := Finite 2\<rparr>" "[]"]
      C5_invalidated_monitor_stops[OF c h3, of DEFAULT_FEE_WALLET 3 "quiet\<lparr>api_balance := Finite 2\<rparr>" "[]"]
    by blast
qed

lemma start_handler_effect:
  "start_handler msg w =
     w\<lparr>user_sessions := (user_sessions w)(from_user msg := None),
       outbox := outbox w @ [(from_user msg, Welcome)]\<rparr>"
  by (auto simp: start_handler_def Let_def send_message_def domIff fun_upd_idem)

lemma start_handler_invalidates: "\<not> session_valid (from_user msg) tid (start_handler msg w)"
  by (simp add: start_handler_effect session_valid_def)

lemma ex_completed_fields:
  "step ex_completed = Some completed" "transaction_id ex_completed = Some ''7_1000''"
  "escrow_address ex_completed = Some ex_escrow" "amount ex_completed = Some (Finite (3 / 2))"
  by (simp_all add: ex_completed_def)

lemma ex_funded_session: "user_sessions ex_world_funded 7 = Some ex_completed"
  by (simp add: ex_world_funded_def)

lemma ex_balance_suffices:
  "fle (Finite (3 / 2)) (get_wallet_balance (api_balance start_during_query) ex_escrow)"
  by (simp add: get_wallet_balance_def valid_ex_escrow start_during_query_def quiet_def)

text \<open>
  C10, as the claim states it, is false: the monitor checks the session and then awaits
  the balance query. A start command that arrives during that query removes the session,
  but the pass goes on with the session dictionary it already holds: here the balance
  suffices, so both transfers are made, the completion notice is sent and the wallet
  record is deleted.
\<close>

theorem C10_start_during_query_counterexample:
  "user_sessions ex_world_funded 7 = Some ex_completed
   \<and> step ex_completed = Some completed
   \<and> escrow_wallets ex_world_funded ''7_1000'' = Some ex_record
   \<and> during_query start_during_query = start_handler (ex_msg ''/start'')
   \<and> polls (monitor_payment DEFAULT_FEE_WALLET 7 ''7_1000'' [start_during_query]
              ex_world_funded) = 1
   \<and> escrow_wallets (final_world (monitor_payment DEFAULT_FEE_WALLET 7 ''7_1000''
              [start_during_query] ex_world_funded)) ''7_1000'' = None
   \<and> transfers (final_world (monitor_payment DEFAULT_FEE_WALLET 7 ''7_1000''
              [start_during_query] ex_world_funded))
       = [(ex_seller, binary64 (57 / 40)), (DEFAULT_FEE_WALLET, binary64 (3 / 40))]
   \<and> outbox (final_world (monitor_payment DEFAULT_FEE_WALLET 7 ''7_1000''
              [start_during_query] ex_world_funded))
       = [(7, Welcome), (7, ProcessingTransfers),
          (7, EscrowCompleted (Finite (3 / 2)) (binary64 (57 / 40)) (binary64 (3 / 40))
                ex_seller ex_escrow)]"
proof -
  let ?w1 = "start_handler (ex_msg ''/start'') ex_world_funded"
  let ?w2 = "process_escrow_release DEFAULT_FEE_WALLET True True 7 ''7_1000'' ex_completed ?w1"
  have c: "0 < max_checks" by (simp add: max_checks_value)
  have dq: "during_query start_during_query = start_handler (ex_msg ''/start'')"
    and sn: "seller_net start_during_query = True" and fn: "fee_net start_during_query = True"
    by (simp_all add: start_during_query_def quiet_def)
  have run: "monitor_payment DEFAULT_FEE_WALLET 7 ''7_1000'' [start_during_query]
               ex_world_funded = Done 0 1 ?w2"
    unfolding monitor_payment_def
      monitor_resume_funded[OF ex_funded_session ex_completed_fields ex_balance_suffices c]
    by (simp add: dq sn fn)
  have wr: "escrow_wallets ?w1 ''7_1000'' = Some ex_record"
    by (simp add: start_handler_effect ex_world_funded_def)
  have o1: "outbox ?w1 = [(7, Welcome)]" and t1: "transfers ?w1 = []"
    by (simp_all add: start_handler_effect ex_world_funded_def ex_msg_def)
  note r = release_effects[OF ex_release_fields wr, of DEFAULT_FEE_WALLET True True 7]
  show ?thesis unfolding run
    using r(1,3,4) ex_funded_session ex_completed_fields(1) ex_funded_record dq
      ex_seller_leg_ok_anywhere[of ?w1] ex_fee_leg_ok[of ?w1]
    by (simp add: o1 t1)
qed

text \<open>
  C10, amended: the start command sends the welcome message, removes the session of the
  user whatever its step, and changes nothing else; the wallet records are untouched. A
  monitor of that user whose next session check comes after the command, at any point of
  its loop and for any transaction identifier, ends at that check without a balance query
  and without changing the state, so the wallet record stays as it was. A start command
  that arrives while a pass awaits its balance query does not stop that pass: if the
  balance reaches the expected amount, the release runs on the state the command left.
\<close>

theorem C10_start_command:
  "user_sessions (start_handler msg w) = (user_sessions w)(from_user msg := None)
   \<and> escrow_wallets (start_handler msg w) = escrow_wallets w
   \<and> outbox (start_handler msg w) = outbox w @ [(from_user msg, Welcome)]
   \<and> transfers (start_handler msg w) = transfers w
   \<and> monitor_resume F (from_user msg) tid c p (t # ts) (start_handler msg w)
       = Done c p (start_handler msg w)
   \<and> (user_sessions w (from_user msg) = Some sess \<and> step sess = Some completed
        \<and> transaction_id sess = Some tid \<and> escrow_address sess = Some a
        \<and> amount sess = Some expected \<and> c < max_checks
        \<and> during_query t' = start_handler msg
        \<and> fle expected (get_wallet_balance (api_balance t') a)
      \<longrightarrow> monitor_resume F (from_user msg) tid c p (t' # ts) w
            = Done c (p + 1)
                (process_escrow_release F (seller_net t') (fee_net t') (from_user msg) tid sess
                   (start_handler msg w)))"
proof -
  have a: "monitor_resume F (from_user msg) tid c p (t # ts) (start_handler msg w)
             = Done c p (start_handler msg w)"
    by (rule monitor_resume_invalid[OF start_handler_invalidates])
  have b: "user_sessions w (from_user msg) = Some sess \<and> step sess = Some completed
        \<and> transaction_id sess = Some tid \<and> escrow_address sess = Some a
        \<and> amount sess = Some expected \<and> c < max_checks
        \<and> during_query t' = start_handler msg
        \<and> fle expected (get_wallet_balance (api_balance t') a)
      \<longrightarrow> monitor_resume F (from_user msg) tid c p (t' # ts) w
            = Done c (p + 1)
                (process_escrow_release F (seller_net t') (fee_net t') (from_user msg) tid sess
                   (start_handler msg w))"
  proof
    assume h: "user_sessions w (from_user msg) = Some sess \<and> step sess = Some completed
        \<and> transaction_id sess = Some tid \<and> escrow_address sess = Some a
        \<and> amount sess = Some expected \<and> c < max_checks
        \<and> during_query t' = start_handler msg
        \<and> fle expected (get_wallet_balance (api_balance t') a)"
    then have "monitor_resume F (from_user msg) tid c p (t' # ts) w
            = Done c (p + 1)
                (process_escrow_release F (seller_net t') (fee_net t') (from_user msg) tid sess
                   (during_query t' w))"
      by (intro monitor_resume_funded) blast+
    with h show "monitor_resume F (from_user msg) tid c p (t' # ts) w
            = Done c (p + 1)
                (process_escrow_release F (seller_net t') (fee_net t') (from_user msg) tid sess
                   (start_handler msg w))"
      by simp
  qed
  show ?thesis using a b by (simp add: start_handler_effect)
qed

theorem C10_start_command_witness:
  "user_sessions ex_world_funded 7 = Some ex_completed
   \<and> step ex_completed = Some completed
   \<and> user_sessions (start_handler (ex_msg ''/start'') ex_world_funded) 7 = None
   \<and> escrow_wallets (start_handler (ex_msg ''/start'') ex_world_funded) ''7_1000''
       = Some ex_record
   \<and> status ex_record = ''waiting_payment''
   \<and> outbox (start_handler (ex_msg ''/start'') ex_world_funded) = [(7, Welcome)]
   \<and> monitor_resume DEFAULT_FEE_WALLET 7 ''7_1000'' 3 3 [quiet\<lparr>api_balance := Finite 2\<rparr>]
        (start_handler (ex_msg ''/start'') ex_world_funded)
       = Done 3 3 (start_handler (ex_msg ''/start'') ex_world_funded)
   \<and> (3::nat) < max_checks
   \<and> during_query start_during_query = start_handler (ex_msg ''/start'')
   \<and> fle (Finite (3 / 2)) (get_wallet_balance (api_balance start_during_query) ex_escrow)
   \<and> monitor_resume DEFAULT_FEE_WALLET 7 ''7_1000'' 3 3 [start_during_query] ex_world_funded
       = Done 3 4
           (process_escrow_release DEFAULT_FEE_WALLET True True 7 ''7_1000'' ex_completed
              (start_handler (ex_msg ''/start'') ex_world_funded))"
proof -
  have u: "from_user (ex_msg ''/start'') = 7" by (simp add: ex_msg_def)
  have c: "(3::nat) < max_checks" by (simp add: max_checks_value)
  have dq: "during_query start_during_query = start_handler (ex_msg ''/start'')"
    and sn: "seller_net start_during_query = True" and fn: "fee_net start_during_query = True"
    by (simp_all add: start_during_query_def quiet_def)
  note t = C10_start_command[of "ex_msg ''/start''" ex_world_funded DEFAULT_FEE_WALLET
             "''7_1000''" 3 3 "quiet\<lparr>api_balance := Finite 2\<rparr>" "[]" ex_completed ex_escrow
             "Finite (3 / 2)" start_during_query]
  have h: "user_sessions ex_world_funded (from_user (ex_msg ''/start'')) = Some ex_completed
        \<and> step ex_completed = Some completed
        \<and> transaction_id ex_completed = Some ''7_1000''
        \<and> escrow_address ex_completed = Some ex_escrow
        \<and> amount ex_completed = Some (Finite (3 / 2)) \<and> (3::nat) < max_checks
        \<and> during_query start_during_query = start_handler (ex_msg ''/start'')
        \<and> fle (Finite (3 / 2)) (get_wallet_balance (api_balance start_during_query) ex_escrow)"
    using ex_funded_session ex_completed_fields c dq ex_balance_suffices by (simp add: u)
  from t h have second:
    "monitor_resume DEFAULT_FEE_WALLET (from_user (ex_msg ''/start'')) ''7_1000'' 3 3
        [start_during_query] ex_world_funded
       = Done 3 (3 + 1)
           (process_escrow_release DEFAULT_FEE_WALLET (seller_net start_during_query)
              (fee_net start_during_query) (from_user (ex_msg ''/start'')) ''7_1000''
              ex_completed (start_handler (ex_msg ''/start'') ex_world_funded))"
    by blast
  from t have first:
    "user_sessions (start_handler (ex_msg ''/start'') ex_world_funded)
       = (user_sessions ex_world_funded)(from_user (ex_msg ''/start'') := None)"
    "escrow_wallets (start_handler (ex_msg ''/start'') ex_world_funded)
       = escrow_wallets ex_world_funded"
    "outbox (start_handler (ex_msg ''/start'') ex_world_funded)
       = outbox ex_world_funded @ [(from_user (ex_msg ''/start''), Welcome)]"
    "monitor_resume DEFAULT_FEE_WALLET (from_user (ex_msg ''/start'')) ''7_1000'' 3 3
        [quiet\<lparr>api_balance := Finite 2\<rparr>] (start_handler (ex_msg ''/start'') ex_world_funded)
       = Done 3 3 (start_handler (ex_msg ''/start'') ex_world_funded)"
    by blast+
  have st: "status ex_record = ''waiting_payment''" by (simp add: ex_record_def)
  show ?thesis
    using first second ex_funded_session ex_completed_fields(1) st c dq ex_balance_suffices
    by (simp add: u sn fn ex_world_funded_def)
qed

end
